theory Spec2Isabelle
  imports Main
begin

section \<open>JavaScript strings\<close>

text \<open>
  Strings are lists of code units; the model covers the code units below 256, which is
  where every literal of the program lives. The functions below are the methods of
  \<^verbatim>\<open>String.prototype\<close> that the program calls.
\<close>

text \<open>The code units below 256 matched by the regular expression class \<^verbatim>\<open>\s\<close>.\<close>

definition isSpace :: "char \<Rightarrow> bool" where
  "isSpace c = (c \<in> set [CHR 0x09, CHR 0x0A, CHR 0x0B, CHR 0x0C, CHR 0x0D, CHR 0x20, CHR 0xA0])"

text \<open>\<^verbatim>\<open>s.startsWith(p)\<close>\<close>

fun startsWith :: "string \<Rightarrow> string \<Rightarrow> bool" where
  "startsWith s [] = True"
| "startsWith [] (p # ps) = False"
| "startsWith (c # cs) (p # ps) = (c = p \<and> startsWith cs ps)"

text \<open>\<^verbatim>\<open>s.includes(sub)\<close>\<close>

fun includesStr :: "string \<Rightarrow> string \<Rightarrow> bool" where
  "includesStr [] sub = (sub = [])"
| "includesStr (c # cs) sub = (startsWith (c # cs) sub \<or> includesStr cs sub)"

text \<open>\<^verbatim>\<open>s.endsWith(p)\<close>\<close>

definition endsWith :: "string \<Rightarrow> string \<Rightarrow> bool" where
  "endsWith s p = startsWith (rev s) (rev p)"

text \<open>
  \<^verbatim>\<open>s.split(/\s+/)\<close>: the pieces between the maximal runs of white space. A run at the
  start or at the end of the string leaves an empty piece there, and the empty string
  gives one empty piece.
\<close>

function splitWs :: "string \<Rightarrow> string list" where
  "splitWs [] = [[]]"
| "splitWs (c # cs) =
     (if isSpace c then [] # splitWs (dropWhile isSpace cs)
      else (case splitWs cs of [] \<Rightarrow> [[c]] | t # ts \<Rightarrow> (c # t) # ts))"
  by pat_completeness auto
termination
  by (relation "measure length") (auto simp: less_Suc_eq_le length_dropWhile_le)

text \<open>\<^verbatim>\<open>xs.join(sep)\<close>\<close>

fun joinWith :: "string \<Rightarrow> string list \<Rightarrow> string" where
  "joinWith sep [] = []"
| "joinWith sep [x] = x"
| "joinWith sep (x # y # ys) = x @ sep @ joinWith sep (y # ys)"

text \<open>\<^verbatim>\<open>s.trim()\<close>\<close>

definition trim :: "string \<Rightarrow> string" where
  "trim s = rev (dropWhile isSpace (rev (dropWhile isSpace s)))"

text \<open>\<^verbatim>\<open>[...new Set(xs)]\<close>: a Set keeps its elements in the order of their first insertion.\<close>

definition setAdd :: "'a list \<Rightarrow> 'a \<Rightarrow> 'a list" where
  "setAdd acc x = (if x \<in> set acc then acc else acc @ [x])"

definition newSet :: "'a list \<Rightarrow> 'a list" where
  "newSet xs = foldl setAdd [] xs"

text \<open>\<^verbatim>\<open>s.split(sep)\<close> for a separator of one code unit.\<close>

fun splitOn :: "char \<Rightarrow> string \<Rightarrow> string list" where
  "splitOn sep [] = [[]]"
| "splitOn sep (c # cs) =
     (if c = sep then [] # splitOn sep cs
      else (case splitOn sep cs of [] \<Rightarrow> [[c]] | t # ts \<Rightarrow> (c # t) # ts))"

text \<open>
  \<^verbatim>\<open>s.toLowerCase()\<close> on the code units below 256: the letters A to Z and the capital
  letters from U+00C0 to U+00DE (the multiplication sign U+00D7 is no letter) move up
  by 32.
\<close>

definition upperCase :: string where
  "upperCase = ''ABCDEFGHIJKLMNOPQRSTUVWXYZ'' @
     [CHR 0xC0, CHR 0xC1, CHR 0xC2, CHR 0xC3, CHR 0xC4, CHR 0xC5, CHR 0xC6, CHR 0xC7,
      CHR 0xC8, CHR 0xC9, CHR 0xCA, CHR 0xCB, CHR 0xCC, CHR 0xCD, CHR 0xCE, CHR 0xCF,
      CHR 0xD0, CHR 0xD1, CHR 0xD2, CHR 0xD3, CHR 0xD4, CHR 0xD5, CHR 0xD6,
      CHR 0xD8, CHR 0xD9, CHR 0xDA, CHR 0xDB, CHR 0xDC, CHR 0xDD, CHR 0xDE]"

definition lowerCase :: string where
  "lowerCase = ''abcdefghijklmnopqrstuvwxyz'' @
     [CHR 0xE0, CHR 0xE1, CHR 0xE2, CHR 0xE3, CHR 0xE4, CHR 0xE5, CHR 0xE6, CHR 0xE7,
      CHR 0xE8, CHR 0xE9, CHR 0xEA, CHR 0xEB, CHR 0xEC, CHR 0xED, CHR 0xEE, CHR 0xEF,
      CHR 0xF0, CHR 0xF1, CHR 0xF2, CHR 0xF3, CHR 0xF4, CHR 0xF5, CHR 0xF6,
      CHR 0xF8, CHR 0xF9, CHR 0xFA, CHR 0xFB, CHR 0xFC, CHR 0xFD, CHR 0xFE]"

definition toLowerCase :: "string \<Rightarrow> string" where
  "toLowerCase s =
     map (\<lambda>c. case map_of (zip upperCase lowerCase) c of None \<Rightarrow> c | Some l \<Rightarrow> l) s"

text \<open>\<^verbatim>\<open>s.replace(/\s+/g, ' ')\<close>: every run of white space becomes one space.\<close>

function collapseWs :: "string \<Rightarrow> string" where
  "collapseWs [] = []"
| "collapseWs (c # cs) =
     (if isSpace c then CHR '' '' # collapseWs (dropWhile isSpace cs) else c # collapseWs cs)"
  by pat_completeness auto
termination
  by (relation "measure length") (auto simp: less_Suc_eq_le length_dropWhile_le)

text \<open>\<^verbatim>\<open>s.replace(/;\s*/g, ';')\<close>: the white space after a semicolon goes.\<close>

function stripAfterSemicolon :: "string \<Rightarrow> string" where
  "stripAfterSemicolon [] = []"
| "stripAfterSemicolon (c # cs) =
     (if c = CHR '';'' then c # stripAfterSemicolon (dropWhile isSpace cs)
      else c # stripAfterSemicolon cs)"
  by pat_completeness auto
termination
  by (relation "measure length") (auto simp: less_Suc_eq_le length_dropWhile_le)

text \<open>\<^verbatim>\<open>s.replace(sub, '')\<close> for a string \<^verbatim>\<open>sub\<close>: the first occurrence goes.\<close>

fun removeFirst :: "string \<Rightarrow> string \<Rightarrow> string" where
  "removeFirst [] sub = []"
| "removeFirst (c # cs) sub =
     (if startsWith (c # cs) sub then drop (length sub) (c # cs) else c # removeFirst cs sub)"

text \<open>A string between double quotes, as the status templates write it.\<close>

definition quoted :: "string \<Rightarrow> string" where
  "quoted s = CHR 0x22 # s @ [CHR 0x22]"

section \<open>Effects: the resolver, the zone API and the history of requests\<close>

text \<open>
  An \<^verbatim>\<open>Error\<close> object as the program reads it: its message, its \<^verbatim>\<open>code\<close> property
  (set by the resolver and by the transport layer) and the status of \<^verbatim>\<open>error.response\<close>
  (set by the HTTP client when the server answered).
\<close>

record jserror =
  message :: string
  code :: "string option"
  status :: "nat option"

definition Error :: "string \<Rightarrow> jserror" where
  "Error msg = \<lparr>message = msg, code = None, status = None\<rparr>"

datatype qtype = TXT | A | AAAA | MX | NS | SOA | CAA | PTR

record rr =
  name :: string
  rtype :: string
  rvalue :: string
  ttl :: nat

text \<open>
  A zone object: its record set (which may be missing) and its other top-level fields,
  kept as an association list of opaque values.
\<close>

record zone =
  resourceRecords :: "rr list option"
  otherFields :: "(string \<times> string) list"

record apiStatus =
  stype :: string
  stext :: string

text \<open>
  The body of an API answer: the status envelope and the \<^verbatim>\<open>data\<close> member, which is
  \<open>None\<close> when it is missing or not an array.
\<close>

record apiResponse =
  rstatus :: "apiStatus option"
  rdata :: "zone list option"

text \<open>
  Every request the program sends leaves one event in the history, and so does every
  pause between two attempts of a request (in milliseconds).
\<close>

datatype event =
    DnsQuery qtype string
  | HttpsGet string
  | ApiSearch
  | ApiGet string
  | ApiPut string zone
  | Sleep nat

type_synonym history = "event list"

record mxrec =
  exchange :: string
  priority :: nat

record soarec =
  refresh :: int
  retry :: int
  expire :: int
  minttl :: int

record caarec =
  issue :: "string option"
  issuewild :: "string option"
  tag :: "string option"

text \<open>
  The outside world: what each resolver call and each HTTP request answers, given the
  history of the requests sent so far. An answer is a value or the error thrown;
  \<open>txtSlow\<close> tells whether the answer to a TXT query takes more than five seconds.
\<close>

record world =
  txtAnswer :: "history \<Rightarrow> string \<Rightarrow> jserror + string list list"
  aAnswer :: "history \<Rightarrow> string \<Rightarrow> jserror + string list"
  aaaaAnswer :: "history \<Rightarrow> string \<Rightarrow> jserror + string list"
  mxAnswer :: "history \<Rightarrow> string \<Rightarrow> jserror + mxrec list"
  nsAnswer :: "history \<Rightarrow> string \<Rightarrow> jserror + string list"
  soaAnswer :: "history \<Rightarrow> string \<Rightarrow> jserror + soarec option"
  caaAnswer :: "history \<Rightarrow> string \<Rightarrow> jserror + caarec list"
  ptrAnswer :: "history \<Rightarrow> string \<Rightarrow> jserror + string list"
  httpsAnswer :: "history \<Rightarrow> string \<Rightarrow> jserror + string"
  searchAnswer :: "history \<Rightarrow> jserror + apiResponse"
  getAnswer :: "history \<Rightarrow> string \<Rightarrow> jserror + apiResponse"
  putAnswer :: "history \<Rightarrow> string \<Rightarrow> zone \<Rightarrow> jserror + apiResponse"
  txtSlow :: "history \<Rightarrow> string \<Rightarrow> bool"

subsection \<open>dns-operations.js\<close>

definition resolveTxt :: "world \<Rightarrow> string \<Rightarrow> history \<Rightarrow> (jserror + string list list) \<times> history" where
  "resolveTxt w n h = (txtAnswer w h n, h @ [DnsQuery TXT n])"

definition resolve4 :: "world \<Rightarrow> string \<Rightarrow> history \<Rightarrow> (jserror + string list) \<times> history" where
  "resolve4 w n h = (aAnswer w h n, h @ [DnsQuery A n])"

definition resolve6 :: "world \<Rightarrow> string \<Rightarrow> history \<Rightarrow> (jserror + string list) \<times> history" where
  "resolve6 w n h = (aaaaAnswer w h n, h @ [DnsQuery AAAA n])"

definition resolveMx :: "world \<Rightarrow> string \<Rightarrow> history \<Rightarrow> (jserror + mxrec list) \<times> history" where
  "resolveMx w n h = (mxAnswer w h n, h @ [DnsQuery MX n])"

text \<open>
  \<^verbatim>\<open>resolveHostToIPs\<close>: both lookups sit in their own \<^verbatim>\<open>try\<close> with an empty
  \<^verbatim>\<open>catch\<close>, so a failed lookup adds nothing and the function returns normally.
\<close>

definition resolveHostToIPs :: "world \<Rightarrow> string \<Rightarrow> history \<Rightarrow> (jserror + string list) \<times> history" where
  "resolveHostToIPs w hostname h =
     (let (r4, h1) = resolve4 w hostname h;
          ips1 = (case r4 of Inr ipv4 \<Rightarrow> map (\<lambda>ip. ''ip4:'' @ ip) ipv4 | Inl _ \<Rightarrow> []);
          (r6, h2) = resolve6 w hostname h1;
          ips2 = (case r6 of Inr ipv6 \<Rightarrow> ips1 @ map (\<lambda>ip. ''ip6:'' @ ip) ipv6 | Inl _ \<Rightarrow> ips1)
      in (Inr ips2, h2))"

text \<open>
  The loop of \<^verbatim>\<open>resolveMxToIPs\<close> over the MX records. It stands in a \<^verbatim>\<open>try\<close> whose
  \<^verbatim>\<open>catch\<close> only logs: an error of a host lookup would end the loop with the addresses
  found so far.
\<close>

fun mxLoop :: "world \<Rightarrow> mxrec list \<Rightarrow> string list \<Rightarrow> history \<Rightarrow> string list \<times> history" where
  "mxLoop w [] ips h = (ips, h)"
| "mxLoop w (mx # mxs) ips h =
     (case resolveHostToIPs w (exchange mx) h of
        (Inl e, h1) \<Rightarrow> (ips, h1)
      | (Inr mxIps, h1) \<Rightarrow> mxLoop w mxs (ips @ mxIps) h1)"

text \<open>\<^verbatim>\<open>resolveMxToIPs\<close>: a failed MX lookup is logged and no address is returned.\<close>

definition resolveMxToIPs :: "world \<Rightarrow> string \<Rightarrow> history \<Rightarrow> (jserror + string list) \<times> history" where
  "resolveMxToIPs w domain h =
     (case resolveMx w domain h of
        (Inl e, h1) \<Rightarrow> (Inr [], h1)
      | (Inr mxRecords, h1) \<Rightarrow>
          (case mxLoop w mxRecords [] h1 of (ips, h2) \<Rightarrow> (Inr ips, h2)))"

section \<open>spf.js: the SPF flattener\<close>

text \<open>\<^verbatim>\<open>getSPFRecord\<close>: the first TXT record that starts with the version token, or null.\<close>

definition getSPFRecord :: "world \<Rightarrow> string \<Rightarrow> history \<Rightarrow> (jserror + string option) \<times> history" where
  "getSPFRecord w domain h =
     (case resolveTxt w domain h of
        (Inr records, h1) \<Rightarrow>
          (case filter (\<lambda>r. startsWith r ''v=spf1'') (map concat records) of
             [] \<Rightarrow> (Inr None, h1)
           | r # _ \<Rightarrow> (Inr (Some r), h1))
      | (Inl e, h1) \<Rightarrow>
          (if code e = Some ''ENODATA'' \<or> code e = Some ''ENOTFOUND'' then (Inr None, h1)
           else (Inl e, h1)))"

text \<open>
  The rank of a call in the recursion of the flattener below: a run of the loop at depth
  \<open>d\<close> ranks below the call of \<^verbatim>\<open>resolveSpfIncludes\<close> that started it and above the
  calls at depth \<open>d + 1\<close> it makes; inside the loop the list of parts shrinks.
\<close>

definition spfRank :: "nat \<Rightarrow> bool \<Rightarrow> nat" where
  "spfRank depth inLoop =
     (if depth \<le> 10 then 2 * (11 - depth) + (if inLoop then 0 else 1)
      else (if inLoop then 1 else 0))"

record spfResult =
  mechanisms :: "string list"
  modifiers :: "string list"

text \<open>
  \<^verbatim>\<open>resolveSpfIncludes\<close> and its \<^verbatim>\<open>for\<close> loop over the parts of the record. The loop
  carries the two arrays being built; the visited set is the one shared \<^verbatim>\<open>Set\<close> object,
  so it is threaded through every call and returned.
\<close>

function resolveSpfIncludes ::
    "world \<Rightarrow> string \<Rightarrow> string set \<Rightarrow> nat \<Rightarrow> history \<Rightarrow> spfResult \<times> string set \<times> history"
  and resolveParts ::
    "world \<Rightarrow> string list \<Rightarrow> nat \<Rightarrow> string list \<Rightarrow> string list \<Rightarrow> string set \<Rightarrow> history
      \<Rightarrow> spfResult \<times> string set \<times> history"
where
  "resolveSpfIncludes w spfRecord visited depth h =
     (if depth > 10 then (\<lparr>mechanisms = [], modifiers = []\<rparr>, visited, h)
      else resolveParts w (splitWs spfRecord) depth [] [] visited h)"
| "resolveParts w [] depth mechs mods visited h =
     (\<lparr>mechanisms = mechs, modifiers = mods\<rparr>, visited, h)"
| "resolveParts w (part # parts) depth mechs mods visited h =
     (if part = ''v=spf1'' then resolveParts w parts depth mechs mods visited h
      else if startsWith part ''include:'' then
        (let includeDomain = drop 8 part in
         if includeDomain \<in> visited then resolveParts w parts depth mechs mods visited h
         else
           (case getSPFRecord w includeDomain h of
              (Inl e, h1) \<Rightarrow>
                resolveParts w parts depth mechs mods (insert includeDomain visited) h1
            | (Inr None, h1) \<Rightarrow>
                resolveParts w parts depth mechs mods (insert includeDomain visited) h1
            | (Inr (Some includeSpf), h1) \<Rightarrow>
                (if includeSpf = [] then
                   resolveParts w parts depth mechs mods (insert includeDomain visited) h1
                 else
                   (case resolveSpfIncludes w includeSpf (insert includeDomain visited)
                           (depth + 1) h1 of
                      (resolved, visited2, h2) \<Rightarrow>
                        resolveParts w parts depth (mechs @ mechanisms resolved)
                          (mods @ modifiers resolved) visited2 h2))))
      else if startsWith part ''redirect='' then
        resolveParts w parts depth mechs (mods @ [part]) visited h
      else if part = ''all'' \<or> startsWith part ''-all'' \<or> startsWith part ''~all'' \<or>
              startsWith part ''+all'' \<or> startsWith part ''?all'' then
        resolveParts w parts depth mechs (mods @ [part]) visited h
      else if part = ''a'' \<or> part = ''mx'' then
        resolveParts w parts depth (mechs @ [part]) mods visited h
      else if startsWith part ''a:'' then
        (case resolveHostToIPs w (drop 2 part) h of
           (Inr ips, h1) \<Rightarrow> resolveParts w parts depth (mechs @ ips) mods visited h1
         | (Inl e, h1) \<Rightarrow> resolveParts w parts depth (mechs @ [part]) mods visited h1)
      else if startsWith part ''mx:'' then
        (case resolveMxToIPs w (drop 3 part) h of
           (Inr ips, h1) \<Rightarrow> resolveParts w parts depth (mechs @ ips) mods visited h1
         | (Inl e, h1) \<Rightarrow> resolveParts w parts depth (mechs @ [part]) mods visited h1)
      else resolveParts w parts depth (mechs @ [part]) mods visited h)"
  by pat_completeness auto

termination
  by (relation "measures
        [\<lambda>x. case x of Inl (w, s, v, d, h) \<Rightarrow> spfRank d False
                      | Inr (w, ps, d, ms, mo, v, h) \<Rightarrow> spfRank d True,
         \<lambda>x. case x of Inl (w, s, v, d, h) \<Rightarrow> 0
                      | Inr (w, ps, d, ms, mo, v, h) \<Rightarrow> length ps]")
     (auto simp: spfRank_def)

text \<open>\<^verbatim>\<open>buildFlattenedSpfRecord\<close>\<close>

definition buildFlattenedSpfRecord :: "world \<Rightarrow> string \<Rightarrow> history \<Rightarrow> string \<times> history" where
  "buildFlattenedSpfRecord w baseSpfRecord h =
     (case resolveSpfIncludes w baseSpfRecord {} 0 h of
        (resolved, visited, h1) \<Rightarrow>
          (let uniqueMechanisms = newSet (mechanisms resolved);
               uniqueModifiers = newSet (modifiers resolved);
               parts = ''v=spf1'' # uniqueMechanisms;
               allModifier = find (\<lambda>m. includesStr m ''all'') uniqueModifiers;
               otherModifiers = filter (\<lambda>m. \<not> includesStr m ''all'') uniqueModifiers;
               parts1 = parts @ otherModifiers;
               parts2 = (case allModifier of
                           None \<Rightarrow> parts1
                         | Some m \<Rightarrow> if m \<noteq> [] then parts1 @ [m] else parts1)
           in (joinWith '' '' parts2, h1)))"

section \<open>validators.js and config.js\<close>

definition isAlnum :: "char \<Rightarrow> bool" where
  "isAlnum c = (c \<in> set ''abcdefghijklmnopqrstuvwxyzABCDEFGHIJKLMNOPQRSTUVWXYZ0123456789'')"

text \<open>
  One label of the pattern of \<^verbatim>\<open>isValidDomainName\<close>: a letter or digit, then optionally up
  to 61 letters, digits or hyphens and a last letter or digit. The pattern is a sequence
  of such labels separated by dots, so a string matches when each of its pieces between
  dots is such a label.
\<close>

definition patternLabel :: "string \<Rightarrow> bool" where
  "patternLabel l =
     (case l of [] \<Rightarrow> False
      | c # cs \<Rightarrow> length l \<le> 63 \<and> isAlnum c \<and> isAlnum (last l) \<and>
                 list_all (\<lambda>x. isAlnum x \<or> x = CHR ''-'') l)"

definition isValidDomainName :: "string \<Rightarrow> bool" where
  "isValidDomainName domain =
     (if domain = [] \<or> length domain > 253 then False
      else if \<not> list_all patternLabel (splitOn CHR ''.'' domain) then False
      else list_all (\<lambda>label. length label > 0 \<and> length label \<le> 63) (splitOn CHR ''.'' domain))"

definition sanitizeDomainName :: "string \<Rightarrow> jserror + string" where
  "sanitizeDomainName domain =
     (let sanitized = trim (toLowerCase domain) in
      if \<not> isValidDomainName sanitized then Inl (Error (''Invalid domain name: '' @ domain))
      else Inr sanitized)"

text \<open>The settings of \<^verbatim>\<open>config\<close> that the modelled functions read.\<close>

record config =
  dryRun :: bool
  expectedSpf :: string
  expectedDmarc :: string
  dmarcReportAuthDomain :: string
  dkimSelectors :: "string list"

section \<open>autodns-client.js: the rate limiter\<close>

text \<open>
  The limiter object. The entries of its queue are the \<^verbatim>\<open>resolve\<close> callbacks of the
  waiting callers; the model names each callback by a value of type \<open>'c\<close>.
\<close>

record 'c rateLimiter =
  capacity :: nat
  tokens :: nat
  queue :: "'c list"

definition autodnsRate :: "'c rateLimiter" where
  "autodnsRate = \<lparr>capacity = 3, tokens = 3, queue = []\<rparr>"

text \<open>
  \<^verbatim>\<open>rateLimitAutoDNS\<close>: the flag tells whether the returned promise is already resolved.
\<close>

definition rateLimitAutoDNS :: "'c \<Rightarrow> 'c rateLimiter \<Rightarrow> bool \<times> 'c rateLimiter" where
  "rateLimitAutoDNS resolve s =
     (if tokens s > 0 then (True, s\<lparr>tokens := tokens s - 1\<rparr>)
      else (False, s\<lparr>queue := queue s @ [resolve]\<rparr>))"

text \<open>The \<^verbatim>\<open>while\<close> loop of the refill callback.\<close>

function refillLoop :: "'c rateLimiter \<Rightarrow> 'c list \<Rightarrow> 'c list \<times> 'c rateLimiter" where
  "refillLoop s processed =
     (if tokens s > 0 \<and> length (queue s) > 0 then
        (case queue s of
           resolve # rest \<Rightarrow>
             refillLoop (s\<lparr>tokens := tokens s - 1, queue := rest\<rparr>) (processed @ [resolve])
         | [] \<Rightarrow> (processed, s))
      else (processed, s))"
  by pat_completeness auto
termination
  by (relation "measure (\<lambda>(s, processed). length (queue s))") auto

text \<open>
  The callback of \<^verbatim>\<open>setInterval\<close>: it returns the callbacks it then calls, in the order
  of the calls.
\<close>

definition refill :: "'c rateLimiter \<Rightarrow> 'c list \<times> 'c rateLimiter" where
  "refill s = refillLoop (s\<lparr>tokens := capacity s\<rparr>) []"

text \<open>
  A run of the limiter: callers arrive and the timer ticks. The second component lists
  the callers whose promise is resolved, in the order of resolution.
\<close>

datatype 'c limEvent = Acquire 'c | Tick

fun limStep :: "'c rateLimiter \<times> 'c list \<Rightarrow> 'c limEvent \<Rightarrow> 'c rateLimiter \<times> 'c list" where
  "limStep (s, resolved) (Acquire c) =
     (case rateLimitAutoDNS c s of
        (now, s') \<Rightarrow> (s', if now then resolved @ [c] else resolved))"
| "limStep (s, resolved) Tick =
     (case refill s of (processed, s') \<Rightarrow> (s', resolved @ processed))"

definition runLimiter ::
    "'c limEvent list \<Rightarrow> 'c rateLimiter \<times> 'c list \<Rightarrow> 'c rateLimiter \<times> 'c list" where
  "runLimiter evs st = foldl limStep st evs"

section \<open>autodns-client.js: retries and the three API calls\<close>

definition isRetryableError :: "jserror \<Rightarrow> bool" where
  "isRetryableError error =
     (if code error = Some ''ECONNRESET'' \<or> code error = Some ''ETIMEDOUT'' \<or>
         code error = Some ''ENOTFOUND'' then True
      else if (case status error of None \<Rightarrow> False | Some st \<Rightarrow> st \<ge> 500) then True
      else if (case status error of None \<Rightarrow> False | Some st \<Rightarrow> st = 429) then True
      else False)"

record retryOptions =
  retries :: nat
  minTimeout :: nat
  maxTimeout :: nat
  factor :: nat

definition RETRY_CONFIG :: retryOptions where
  "RETRY_CONFIG = \<lparr>retries = 3, minTimeout = 1000, maxTimeout = 5000, factor = 2\<rparr>"

text \<open>
  The outcome of one attempt: a value, an error thrown as it is, or an error wrapped
  in \<^verbatim>\<open>AbortError\<close>.
\<close>

datatype 'a attempt = Success 'a | Throw jserror | Abort jserror

text \<open>
  Modelled from the spec: \<^verbatim>\<open>pRetry\<close> is imported from the library p-retry, whose source
  is not in the repository. The definition follows the retry policy of the specification
  (exponential backoff with a retry count, an initial delay, a cap and a multiplier; a
  failure that is not retryable aborts at once), which is the documented contract of
  the library. An attempt that returns ends the call; an \<^verbatim>\<open>AbortError\<close> ends it with
  the wrapped error; any other error ends it when no retry is left, and otherwise the
  next attempt follows after a pause of \<^verbatim>\<open>min(minTimeout * factor^k, maxTimeout)\<close>
  milliseconds, \<open>k\<close> counting the retries made so far. The state \<open>'s\<close> is whatever the
  attempts change; \<open>pause\<close> records a pause in it.
\<close>

definition backoff :: "retryOptions \<Rightarrow> nat \<Rightarrow> nat" where
  "backoff opts k = min (minTimeout opts * factor opts ^ k) (maxTimeout opts)"

fun pRetryFrom ::
    "retryOptions \<Rightarrow> (nat \<Rightarrow> 's \<Rightarrow> 's) \<Rightarrow> nat \<Rightarrow> nat \<Rightarrow> ('s \<Rightarrow> 'a attempt \<times> 's) \<Rightarrow> 's
      \<Rightarrow> (jserror + 'a) \<times> 's" where
  "pRetryFrom opts pause k 0 run s =
     (case run s of
        (Success v, s1) \<Rightarrow> (Inr v, s1)
      | (Abort e, s1) \<Rightarrow> (Inl e, s1)
      | (Throw e, s1) \<Rightarrow> (Inl e, s1))"
| "pRetryFrom opts pause k (Suc retriesLeft) run s =
     (case run s of
        (Success v, s1) \<Rightarrow> (Inr v, s1)
      | (Abort e, s1) \<Rightarrow> (Inl e, s1)
      | (Throw e, s1) \<Rightarrow>
          pRetryFrom opts pause (Suc k) retriesLeft run (pause (backoff opts k) s1))"

definition pRetry ::
    "retryOptions \<Rightarrow> (nat \<Rightarrow> 's \<Rightarrow> 's) \<Rightarrow> ('s \<Rightarrow> 'a attempt \<times> 's) \<Rightarrow> 's \<Rightarrow> (jserror + 'a) \<times> 's" where
  "pRetry opts pause run s = pRetryFrom opts pause 0 (retries opts) run s"

text \<open>A pause, as the history records it.\<close>

definition sleep :: "nat \<Rightarrow> history \<Rightarrow> history" where
  "sleep ms h = h @ [Sleep ms]"

text \<open>
  The function handed to \<^verbatim>\<open>pRetry\<close> has the same shape in \<^verbatim>\<open>queryDomains\<close>,
  \<^verbatim>\<open>getZone\<close> and \<^verbatim>\<open>updateZone\<close>: wait for a token of the rate limiter (which delays
  the request and changes no value), send the request, return the body of the answer;
  an error is logged, wrapped in \<^verbatim>\<open>AbortError\<close> unless \<^verbatim>\<open>isRetryableError\<close> holds, and
  thrown.
\<close>

definition apiAttempt ::
    "(history \<Rightarrow> jserror + apiResponse) \<Rightarrow> event \<Rightarrow> history \<Rightarrow> apiResponse attempt \<times> history" where
  "apiAttempt answer request h =
     (case answer h of
        Inr body \<Rightarrow> (Success body, h @ [request])
      | Inl error \<Rightarrow>
          (if \<not> isRetryableError error then (Abort error, h @ [request])
           else (Throw error, h @ [request])))"

definition queryDomains :: "world \<Rightarrow> history \<Rightarrow> (jserror + apiResponse) \<times> history" where
  "queryDomains w h = pRetry RETRY_CONFIG sleep (apiAttempt (searchAnswer w) ApiSearch) h"

definition getZone :: "world \<Rightarrow> string \<Rightarrow> history \<Rightarrow> (jserror + apiResponse) \<times> history" where
  "getZone w zoneName h =
     (case sanitizeDomainName zoneName of
        Inl e \<Rightarrow> (Inl e, h)
      | Inr sanitizedZone \<Rightarrow>
          pRetry RETRY_CONFIG sleep
            (apiAttempt (\<lambda>h'. getAnswer w h' sanitizedZone) (ApiGet sanitizedZone)) h)"

definition readOnlyFields :: "string list" where
  "readOnlyFields = [''created'', ''updated'', ''owner'', ''updater'', ''roid'']"

text \<open>
  The payload of \<^verbatim>\<open>updateZone\<close>: the fields of the zone without the read-only ones.
  The deletion of a field from an association list, and the whole list of deletions.
\<close>

definition deleteField :: "(string \<times> 'v) list \<Rightarrow> string \<Rightarrow> (string \<times> 'v) list" where
  "deleteField obj field = filter (\<lambda>(k, v). k \<noteq> field) obj"

definition payloadOf :: "zone \<Rightarrow> zone" where
  "payloadOf zoneData = zoneData\<lparr>otherFields := foldl deleteField (otherFields zoneData) readOnlyFields\<rparr>"

definition dryRunSuccess :: apiResponse where
  "dryRunSuccess =
     \<lparr>rstatus = Some \<lparr>stype = ''SUCCESS'', stext = ''Dry-run mode: no changes made''\<rparr>,
      rdata = None\<rparr>"

definition updateZone ::
    "config \<Rightarrow> world \<Rightarrow> string \<Rightarrow> zone \<Rightarrow> history \<Rightarrow> (jserror + apiResponse) \<times> history" where
  "updateZone cfg w zoneName zoneData h =
     (case sanitizeDomainName zoneName of
        Inl e \<Rightarrow> (Inl e, h)
      | Inr sanitizedZone \<Rightarrow>
          (if dryRun cfg then (Inr dryRunSuccess, h)
           else pRetry RETRY_CONFIG sleep
                  (apiAttempt (\<lambda>h'. putAnswer w h' sanitizedZone (payloadOf zoneData))
                     (ApiPut sanitizedZone (payloadOf zoneData))) h))"

section \<open>The record reconcilers\<close>

text \<open>
  The first zone of an answer, after the test
  \<^verbatim>\<open>!zoneInfo.data || !Array.isArray(zoneInfo.data) || zoneInfo.data.length === 0\<close>.
\<close>

definition firstZone :: "apiResponse \<Rightarrow> jserror + zone" where
  "firstZone zoneInfo =
     (case rdata zoneInfo of
        None \<Rightarrow> Inl (Error ''Invalid zone data received'')
      | Some [] \<Rightarrow> Inl (Error ''Invalid zone data received'')
      | Some (zone # _) \<Rightarrow> Inr zone)"

text \<open>The record set of a zone; a missing one is replaced by the empty array.\<close>

definition recordsOf :: "zone \<Rightarrow> rr list" where
  "recordsOf zone = (case resourceRecords zone of None \<Rightarrow> [] | Some rs \<Rightarrow> rs)"

text \<open>
  The loop shared by the reconcilers: the first record that matches gets the new value
  and the TTL 300, and the loop breaks. The flag is \<^verbatim>\<open>recordFound\<close>.
\<close>

fun overwriteFirst :: "(rr \<Rightarrow> bool) \<Rightarrow> string \<Rightarrow> rr list \<Rightarrow> rr list \<times> bool" where
  "overwriteFirst matches v [] = ([], False)"
| "overwriteFirst matches v (r # rs) =
     (if matches r then (r\<lparr>rvalue := v, ttl := 300\<rparr> # rs, True)
      else (case overwriteFirst matches v rs of (rs', found) \<Rightarrow> (r # rs', found)))"

definition isApex :: "rr \<Rightarrow> bool" where
  "isApex r = (name r = [] \<or> name r = ''@'')"

definition apexCnameError :: jserror where
  "apexCnameError =
     Error (''Apex has a CNAME record; cannot add/update '' @
            ''SPF TXT at zone apex due to DNS constraints'')"

subsection \<open>spf.js\<close>

definition updateDomainSPFRecord ::
    "config \<Rightarrow> world \<Rightarrow> string \<Rightarrow> string \<Rightarrow> history \<Rightarrow> (jserror + apiResponse) \<times> history" where
  "updateDomainSPFRecord cfg w domainName spfValue h =
     (case getZone w domainName h of
        (Inl e, h1) \<Rightarrow> (Inl e, h1)
      | (Inr zoneInfo, h1) \<Rightarrow>
          (case firstZone zoneInfo of
             Inl e \<Rightarrow> (Inl e, h1)
           | Inr zone \<Rightarrow>
               (let records = recordsOf zone;
                    hasApexCname = list_ex (\<lambda>rr. rtype rr = ''CNAME'' \<and> isApex rr) records
                in if hasApexCname then (Inl apexCnameError, h1)
                   else
                     (case overwriteFirst
                             (\<lambda>r. rtype r = ''TXT'' \<and> isApex r \<and> rvalue r \<noteq> [] \<and>
                                  startsWith (rvalue r) ''v=spf1'') spfValue records of
                        (records1, recordFound) \<Rightarrow>
                          (let records2 =
                                 (if \<not> recordFound
                                  then records1 @ [\<lparr>name = [], rtype = ''TXT'',
                                                     rvalue = spfValue, ttl = 300\<rparr>]
                                  else records1)
                           in updateZone cfg w domainName
                                (zone\<lparr>resourceRecords := Some records2\<rparr>) h1)))))"

subsection \<open>dmarc.js\<close>

definition getDMARCRecord :: "world \<Rightarrow> string \<Rightarrow> history \<Rightarrow> (jserror + string option) \<times> history" where
  "getDMARCRecord w domain h =
     (case resolveTxt w (''_dmarc.'' @ domain) h of
        (Inr records, h1) \<Rightarrow>
          (case filter (\<lambda>r. startsWith r ''v=DMARC1'') (map concat records) of
             [] \<Rightarrow> (Inr None, h1)
           | r # _ \<Rightarrow> (Inr (Some r), h1))
      | (Inl e, h1) \<Rightarrow>
          (if code e = Some ''ENODATA'' \<or> code e = Some ''ENOTFOUND'' then (Inr None, h1)
           else (Inl e, h1)))"

text \<open>\<^verbatim>\<open>normalizeDMARC\<close>: null and the empty string give null.\<close>

definition normalizeDMARC :: "string option \<Rightarrow> string option" where
  "normalizeDMARC dmarc =
     (case dmarc of
        None \<Rightarrow> None
      | Some s \<Rightarrow> if s = [] then None else Some (trim (collapseWs (stripAfterSemicolon s))))"

text \<open>
  \<^verbatim>\<open>updateDomainDMARCRecord\<close>: every error is caught, logged and turned into the result
  \<^verbatim>\<open>false\<close>.
\<close>

definition updateDomainDMARCRecord ::
    "config \<Rightarrow> world \<Rightarrow> string \<Rightarrow> string \<Rightarrow> history \<Rightarrow> bool \<times> history" where
  "updateDomainDMARCRecord cfg w domainName dmarcValue h =
     (case getZone w domainName h of
        (Inl e, h1) \<Rightarrow> (False, h1)
      | (Inr zoneInfo, h1) \<Rightarrow>
          (case firstZone zoneInfo of
             Inl e \<Rightarrow> (False, h1)
           | Inr zone \<Rightarrow>
               (case overwriteFirst (\<lambda>r. rtype r = ''TXT'' \<and> name r = ''_dmarc'')
                       dmarcValue (recordsOf zone) of
                  (records1, recordFound) \<Rightarrow>
                    (let records2 =
                           (if \<not> recordFound
                            then records1 @ [\<lparr>name = ''_dmarc'', rtype = ''TXT'',
                                               rvalue = dmarcValue, ttl = 300\<rparr>]
                            else records1)
                     in case updateZone cfg w domainName
                               (zone\<lparr>resourceRecords := Some records2\<rparr>) h1 of
                          (Inl e, h2) \<Rightarrow> (False, h2)
                        | (Inr _, h2) \<Rightarrow> (True, h2)))))"

definition addDMARCReportAuthRecord ::
    "config \<Rightarrow> world \<Rightarrow> string \<Rightarrow> history \<Rightarrow> bool \<times> history" where
  "addDMARCReportAuthRecord cfg w domainName h =
     (let recordName = domainName @ ''._report._dmarc'';
          recordValue = ''v=DMARC1''
      in case getZone w (dmarcReportAuthDomain cfg) h of
           (Inl e, h1) \<Rightarrow> (False, h1)
         | (Inr zoneInfo, h1) \<Rightarrow>
             (case firstZone zoneInfo of
                Inl e \<Rightarrow> (False, h1)
              | Inr zone \<Rightarrow>
                  (let recordFound =
                         list_ex (\<lambda>r. rtype r = ''TXT'' \<and> name r = recordName) (recordsOf zone)
                   in if \<not> recordFound then
                        (case updateZone cfg w (dmarcReportAuthDomain cfg)
                                (zone\<lparr>resourceRecords :=
                                   Some (recordsOf zone @
                                         [\<lparr>name = recordName, rtype = ''TXT'',
                                           rvalue = recordValue, ttl = 300\<rparr>])\<rparr>) h1 of
                           (Inl e, h2) \<Rightarrow> (False, h2)
                         | (Inr _, h2) \<Rightarrow> (True, h2))
                      else (True, h1))))"

subsection \<open>dkim.js\<close>

record dkimResult =
  selector :: string
  found :: bool
  recordText :: "string option"
  fullValue :: "string option"
  errorText :: "string option"

definition preview :: "string \<Rightarrow> string" where
  "preview full = take 50 full @ (if length full > 50 then ''...'' else [])"

text \<open>The loop of \<^verbatim>\<open>checkDKIMRecords\<close> over the configured selectors.\<close>

fun checkDKIMLoop ::
    "world \<Rightarrow> string \<Rightarrow> string list \<Rightarrow> dkimResult list \<Rightarrow> history \<Rightarrow> dkimResult list \<times> history" where
  "checkDKIMLoop w domain [] dkimResults h = (dkimResults, h)"
| "checkDKIMLoop w domain (sel # sels) dkimResults h =
     (case resolveTxt w (sel @ ''._domainkey.'' @ domain) h of
        (Inr records, h1) \<Rightarrow>
          (case filter (\<lambda>r. includesStr r ''v=DKIM1'' \<or> includesStr r ''k=rsa'' \<or>
                             includesStr r ''p='') (map concat records) of
             [] \<Rightarrow> checkDKIMLoop w domain sels dkimResults h1
           | full # _ \<Rightarrow>
               checkDKIMLoop w domain sels
                 (dkimResults @ [\<lparr>selector = sel, found = True, recordText = Some (preview full),
                                   fullValue = Some full, errorText = None\<rparr>]) h1)
      | (Inl e, h1) \<Rightarrow>
          (if code e \<noteq> Some ''ENODATA'' \<and> code e \<noteq> Some ''ENOTFOUND'' then
             checkDKIMLoop w domain sels
               (dkimResults @ [\<lparr>selector = sel, found = False, recordText = None,
                                 fullValue = None, errorText = Some (message e)\<rparr>]) h1
           else checkDKIMLoop w domain sels dkimResults h1))"

definition checkDKIMRecords ::
    "config \<Rightarrow> world \<Rightarrow> string \<Rightarrow> history \<Rightarrow> dkimResult list \<times> history" where
  "checkDKIMRecords cfg w domain h = checkDKIMLoop w domain (dkimSelectors cfg) [] h"

definition listZoneDKIMRecords :: "world \<Rightarrow> string \<Rightarrow> history \<Rightarrow> dkimResult list \<times> history" where
  "listZoneDKIMRecords w domainName h =
     (case getZone w domainName h of
        (Inl e, h1) \<Rightarrow> ([], h1)
      | (Inr zoneInfo, h1) \<Rightarrow>
          (case firstZone zoneInfo of
             Inl e \<Rightarrow> ([], h1)
           | Inr zone \<Rightarrow>
               (map (\<lambda>r. \<lparr>selector = removeFirst (name r) ''._domainkey'', found = True,
                           recordText = Some (preview (rvalue r)),
                           fullValue = Some (rvalue r), errorText = None\<rparr>)
                  (filter (\<lambda>r. rtype r = ''TXT'' \<and> endsWith (name r) ''._domainkey'')
                     (recordsOf zone)),
                h1)))"

definition updateDomainDKIMRecord ::
    "config \<Rightarrow> world \<Rightarrow> string \<Rightarrow> string \<Rightarrow> string \<Rightarrow> history \<Rightarrow> bool \<times> history" where
  "updateDomainDKIMRecord cfg w domainName sel dkimValue h =
     (case getZone w domainName h of
        (Inl e, h1) \<Rightarrow> (False, h1)
      | (Inr zoneInfo, h1) \<Rightarrow>
          (case firstZone zoneInfo of
             Inl e \<Rightarrow> (False, h1)
           | Inr zone \<Rightarrow>
               (let recordName = sel @ ''._domainkey'' in
                case overwriteFirst (\<lambda>r. rtype r = ''TXT'' \<and> name r = recordName)
                       dkimValue (recordsOf zone) of
                  (records1, updated) \<Rightarrow>
                    (let records2 =
                           (if \<not> updated
                            then records1 @ [\<lparr>name = recordName, rtype = ''TXT'',
                                               rvalue = dkimValue, ttl = 300\<rparr>]
                            else records1)
                     in case updateZone cfg w domainName
                               (zone\<lparr>resourceRecords := Some records2\<rparr>) h1 of
                          (Inl e, h2) \<Rightarrow> (False, h2)
                        | (Inr _, h2) \<Rightarrow> (True, h2)))))"

section \<open>health-checks.js\<close>

definition resolveNs :: "world \<Rightarrow> string \<Rightarrow> history \<Rightarrow> (jserror + string list) \<times> history" where
  "resolveNs w n h = (nsAnswer w h n, h @ [DnsQuery NS n])"

definition resolveSoa :: "world \<Rightarrow> string \<Rightarrow> history \<Rightarrow> (jserror + soarec option) \<times> history" where
  "resolveSoa w n h = (soaAnswer w h n, h @ [DnsQuery SOA n])"

definition resolveCaa :: "world \<Rightarrow> string \<Rightarrow> history \<Rightarrow> (jserror + caarec list) \<times> history" where
  "resolveCaa w n h = (caaAnswer w h n, h @ [DnsQuery CAA n])"

definition reversePtr :: "world \<Rightarrow> string \<Rightarrow> history \<Rightarrow> (jserror + string list) \<times> history" where
  "reversePtr w ip h = (ptrAnswer w h ip, h @ [DnsQuery PTR ip])"

definition httpsGet :: "world \<Rightarrow> string \<Rightarrow> history \<Rightarrow> (jserror + string) \<times> history" where
  "httpsGet w url h = (httpsAnswer w h url, h @ [HttpsGet url])"

text \<open>\<^verbatim>\<open>safeResolveTxt\<close> and the idiom \<^verbatim>\<open>resolve(...).catch(() => [])\<close>.\<close>

definition orEmpty :: "(jserror + 'a list) \<times> history \<Rightarrow> 'a list \<times> history" where
  "orEmpty r = (case r of (Inl e, h1) \<Rightarrow> ([], h1) | (Inr xs, h1) \<Rightarrow> (xs, h1))"

definition safeResolveTxt :: "world \<Rightarrow> string \<Rightarrow> history \<Rightarrow> string list list \<times> history" where
  "safeResolveTxt w n h = orEmpty (resolveTxt w n h)"

text \<open>
  The loop of \<^verbatim>\<open>nsHostsResolvable\<close> and of \<^verbatim>\<open>checkMXIntegrity\<close>: a host without an A
  and without an AAAA address clears the flag.
\<close>

fun hostsResolvable :: "world \<Rightarrow> string list \<Rightarrow> bool \<Rightarrow> history \<Rightarrow> bool \<times> history" where
  "hostsResolvable w [] ok h = (ok, h)"
| "hostsResolvable w (host # hosts) ok h =
     (case orEmpty (resolve4 w host h) of
        (a, h1) \<Rightarrow>
          (case orEmpty (resolve6 w host h1) of
             (aaaa, h2) \<Rightarrow>
               hostsResolvable w hosts (if a = [] \<and> aaaa = [] then False else ok) h2))"

text \<open>Each check returns the \<^verbatim>\<open>ok\<close> member of its result, which is all the summary reads.\<close>

definition checkNS :: "world \<Rightarrow> string \<Rightarrow> history \<Rightarrow> bool \<times> history" where
  "checkNS w domain h =
     (case resolveNs w domain h of
        (Inl e, h1) \<Rightarrow> (False, h1)
      | (Inr ns, h1) \<Rightarrow>
          (case hostsResolvable w ns True h1 of
             (resolvesOk, h2) \<Rightarrow> (length ns \<ge> 2 \<and> resolvesOk, h2)))"

definition autodnsPatterns :: "string list" where
  "autodnsPatterns = [''a.ns14.net'', ''b.ns14.net'', ''c.ns14.net'', ''d.ns14.net'']"

text \<open>\<^verbatim>\<open>s.replace(/\.$/, '')\<close>\<close>

definition dropTrailingDot :: "string \<Rightarrow> string" where
  "dropTrailingDot s = (if s \<noteq> [] \<and> last s = CHR ''.'' then butlast s else s)"

definition matchesAutoDNS :: "string \<Rightarrow> bool" where
  "matchesAutoDNS nameserver =
     (let nsLower = dropTrailingDot (toLowerCase nameserver)
      in list_ex (\<lambda>pattern. nsLower = pattern \<or> endsWith nsLower (''.'' @ pattern))
           autodnsPatterns)"

definition usesAutoDNSNameservers :: "world \<Rightarrow> string \<Rightarrow> history \<Rightarrow> bool \<times> history" where
  "usesAutoDNSNameservers w domain h =
     (case resolveNs w domain h of
        (Inl e, h1) \<Rightarrow> (False, h1)
      | (Inr ns, h1) \<Rightarrow>
          (if length ns = 0 then (False, h1) else (list_ex matchesAutoDNS ns, h1)))"

definition checkSOASanity :: "soarec option \<Rightarrow> bool" where
  "checkSOASanity soa =
     (case soa of
        None \<Rightarrow> False
      | Some s \<Rightarrow>
          refresh s \<ge> 3600 \<and> refresh s \<le> 86400 \<and>
          retry s \<ge> 300 \<and> retry s \<le> 7200 \<and>
          expire s \<ge> 604800 \<and> expire s \<le> 2419200 \<and>
          minttl s \<ge> 60 \<and> minttl s \<le> 86400)"

definition checkSOA :: "world \<Rightarrow> string \<Rightarrow> history \<Rightarrow> bool \<times> history" where
  "checkSOA w domain h =
     (case resolveSoa w domain h of
        (Inl e, h1) \<Rightarrow> (False, h1)
      | (Inr soa, h1) \<Rightarrow> (checkSOASanity soa, h1))"

definition truthy :: "string option \<Rightarrow> bool" where
  "truthy v = (case v of None \<Rightarrow> False | Some s \<Rightarrow> s \<noteq> [])"

definition checkCAA :: "world \<Rightarrow> string \<Rightarrow> history \<Rightarrow> bool \<times> history" where
  "checkCAA w domain h =
     (case orEmpty (resolveCaa w domain h) of
        (caa, h1) \<Rightarrow>
          (let hasIssue =
                 list_ex (\<lambda>r. truthy (issue r) \<or> truthy (issuewild r) \<or>
                              (case tag r of None \<Rightarrow> False
                               | Some t \<Rightarrow> t \<noteq> [] \<and> startsWith t ''issue'')) caa;
               present = length caa > 0
           in (\<not> present \<or> hasIssue, h1)))"

definition checkMtaSts :: "world \<Rightarrow> string \<Rightarrow> history \<Rightarrow> bool \<times> history" where
  "checkMtaSts w domain h =
     (case safeResolveTxt w (''_mta-sts.'' @ domain) h of
        (txt, h1) \<Rightarrow>
          (let txtFound = length txt > 0 \<and> includesStr (concat (concat txt)) ''v=STSv1'' in
           if txtFound then
             (case httpsGet w (''https://mta-sts.'' @ domain @ ''/.well-known/mta-sts.txt'') h1 of
                (Inr body, h2) \<Rightarrow> (txtFound \<and> includesStr body ''version: STSv1'', h2)
              | (Inl e, h2) \<Rightarrow> (False, h2))
           else (False, h1)))"

definition checkTlsRpt :: "world \<Rightarrow> string \<Rightarrow> history \<Rightarrow> bool \<times> history" where
  "checkTlsRpt w domain h =
     (case safeResolveTxt w (''_smtp._tls.'' @ domain) h of
        (txt, h1) \<Rightarrow>
          (let joined = concat (concat txt)
           in (includesStr joined ''v=TLSRPTv1'' \<and> includesStr joined ''rua='', h1)))"

definition checkPTRForOutbound :: "world \<Rightarrow> string \<Rightarrow> history \<Rightarrow> bool \<times> history" where
  "checkPTRForOutbound w mxHost h =
     (case orEmpty (resolve4 w mxHost h) of
        (v4, h1) \<Rightarrow>
          (case orEmpty (resolve6 w mxHost h1) of
             (v6, h2) \<Rightarrow>
               (case v4 @ v6 of
                  [] \<Rightarrow> (False, h2)
                | ip # _ \<Rightarrow>
                    (case orEmpty (reversePtr w ip h2) of
                       (ptr, h3) \<Rightarrow> (length ptr > 0, h3)))))"

definition checkMXIntegrity :: "world \<Rightarrow> string \<Rightarrow> string list \<Rightarrow> history \<Rightarrow> bool \<times> history" where
  "checkMXIntegrity w domain mxHosts h =
     (case hostsResolvable w mxHosts True h of
        (targetsResolvable, h1) \<Rightarrow> (length mxHosts \<ge> 1 \<and> targetsResolvable, h1))"

record healthStatus =
  nsOk :: bool
  soaOk :: bool
  caaOk :: bool
  mtaOk :: bool
  tlsOk :: bool
  mxOk :: bool
  ptrOk :: bool

definition flag :: "bool \<Rightarrow> string" where
  "flag v = (if v then ''ok'' else ''fail'')"

definition buildHealthSummary :: "healthStatus \<Rightarrow> string" where
  "buildHealthSummary st =
     joinWith ''; ''
       [''NS:'' @ flag (nsOk st), ''SOA:'' @ flag (soaOk st), ''CAA:'' @ flag (caaOk st),
        ''MTA:'' @ flag (mtaOk st), ''TLS:'' @ flag (tlsOk st), ''PTR:'' @ flag (ptrOk st)]"

subsection \<open>The record getters of dns-operations.js\<close>

definition apexValues :: "string \<Rightarrow> zone \<Rightarrow> string list" where
  "apexValues ty zone = map rvalue (filter (\<lambda>r. rtype r = ty \<and> isApex r) (recordsOf zone))"

definition getARecords :: "world \<Rightarrow> zone \<Rightarrow> string \<Rightarrow> history \<Rightarrow> string list \<times> history" where
  "getARecords w zone domainName h =
     (if length (apexValues ''A'' zone) = 0 then orEmpty (resolve4 w domainName h)
      else (apexValues ''A'' zone, h))"

definition getAAAARecords :: "world \<Rightarrow> zone \<Rightarrow> string \<Rightarrow> history \<Rightarrow> string list \<times> history" where
  "getAAAARecords w zone domainName h =
     (if length (apexValues ''AAAA'' zone) = 0 then orEmpty (resolve6 w domainName h)
      else (apexValues ''AAAA'' zone, h))"

definition getMXRecords :: "world \<Rightarrow> zone \<Rightarrow> string \<Rightarrow> history \<Rightarrow> string list \<times> history" where
  "getMXRecords w zone domainName h =
     (if length (apexValues ''MX'' zone) = 0 then
        (case resolveMx w domainName h of
           (Inl e, h1) \<Rightarrow> ([], h1)
         | (Inr mxRaw, h1) \<Rightarrow> (map exchange mxRaw, h1))
      else (apexValues ''MX'' zone, h))"

section \<open>domain-processor.js\<close>

text \<open>
  The console marks: a green check, a red cross or a gray dash, the first two also with
  the suffix \<^verbatim>\<open>(updated)\<close> or \<^verbatim>\<open>(failed)\<close>.
\<close>

datatype console = NotSet | GreenCheck | GreenCheckUpdated | RedCross | RedCrossFailed | GrayDash

record checkResult =
  spfCheckConsole :: console
  spfRecord :: string
  spfStatus :: string
  dmarcCheckConsole :: console
  dmarcRecord :: string
  dmarcStatus :: string
  dkimCheckConsole :: console
  dkimInfo :: string
  dkimStatus :: string
  aDisplay :: string
  aaaaDisplay :: string
  mxDisplay :: string
  healthSummary :: string

definition initialResult :: checkResult where
  "initialResult =
     \<lparr>spfCheckConsole = NotSet, spfRecord = [], spfStatus = [],
      dmarcCheckConsole = NotSet, dmarcRecord = [], dmarcStatus = [],
      dkimCheckConsole = NotSet, dkimInfo = [], dkimStatus = [],
      aDisplay = ''-'', aaaaDisplay = ''-'', mxDisplay = ''-'', healthSummary = []\<rparr>"

definition display :: "string list \<Rightarrow> string" where
  "display xs = (if length xs > 0 then joinWith '','' xs else ''-'')"

definition getRecordsForDomain ::
    "world \<Rightarrow> string \<Rightarrow> checkResult \<Rightarrow> history \<Rightarrow> checkResult \<times> history" where
  "getRecordsForDomain w domainName result h =
     (case getZone w domainName h of
        (Inl e, h1) \<Rightarrow> (result, h1)
      | (Inr zoneInfo, h1) \<Rightarrow>
          (case firstZone zoneInfo of
             Inl e \<Rightarrow> (result, h1)
           | Inr zone \<Rightarrow>
               (case getARecords w zone domainName h1 of
                  (aRecords, h2) \<Rightarrow>
                    (case getAAAARecords w zone domainName h2 of
                       (aaaaRecords, h3) \<Rightarrow>
                         (case getMXRecords w zone domainName h3 of
                            (mxRecords, h4) \<Rightarrow>
                              (result\<lparr>aDisplay := display aRecords,
                                      aaaaDisplay := display aaaaRecords,
                                      mxDisplay := display mxRecords\<rparr>, h4))))))"

definition addHealthChecks ::
    "world \<Rightarrow> string \<Rightarrow> checkResult \<Rightarrow> history \<Rightarrow> checkResult \<times> history" where
  "addHealthChecks w domainName result h =
     (case checkNS w domainName h of (ns, h1) \<Rightarrow>
      case checkSOA w domainName h1 of (soa, h2) \<Rightarrow>
      case checkCAA w domainName h2 of (caa, h3) \<Rightarrow>
      case checkMtaSts w domainName h3 of (mta, h4) \<Rightarrow>
      case checkTlsRpt w domainName h4 of (tls, h5) \<Rightarrow>
      let mxHosts = (if mxDisplay result = ''-'' then []
                     else splitOn CHR '','' (mxDisplay result)) in
      case checkMXIntegrity w domainName mxHosts h5 of (mxInt, h6) \<Rightarrow>
      case (case mxHosts of [] \<Rightarrow> (False, h6)
            | mxHost # _ \<Rightarrow> checkPTRForOutbound w mxHost h6) of (ptr, h7) \<Rightarrow>
        (result\<lparr>healthSummary :=
            buildHealthSummary \<lparr>nsOk = ns, soaOk = soa, caaOk = caa, mtaOk = mta,
                                tlsOk = tls, mxOk = mxInt, ptrOk = ptr\<rparr>\<rparr>, h7))"

text \<open>The desired DKIM configuration: for a domain, its selectors with their values.\<close>

type_synonym dkimConfig = "string \<Rightarrow> (string \<times> string) list option"

definition normalizeWs :: "string option \<Rightarrow> string" where
  "normalizeWs s = trim (collapseWs (case s of None \<Rightarrow> [] | Some v \<Rightarrow> v))"

text \<open>The loop of \<^verbatim>\<open>checkDKIMForDomain\<close> that creates or updates the desired selectors.\<close>

fun ensureSelectors ::
    "config \<Rightarrow> world \<Rightarrow> string \<Rightarrow> dkimResult list \<Rightarrow> (string \<times> string) list \<Rightarrow> checkResult
      \<Rightarrow> history \<Rightarrow> checkResult \<times> history" where
  "ensureSelectors cfg w domainName dkimResults [] result h = (result, h)"
| "ensureSelectors cfg w domainName dkimResults ((sel, desiredValue) # entries) result h =
     (if desiredValue = [] \<or> trim desiredValue = [] then
        ensureSelectors cfg w domainName dkimResults entries result h
      else
        (case find (\<lambda>r. selector r = sel) dkimResults of
           None \<Rightarrow>
             (case updateDomainDKIMRecord cfg w domainName sel desiredValue h of
                (ok, h1) \<Rightarrow>
                  ensureSelectors cfg w domainName dkimResults entries
                    (result\<lparr>dkimStatus :=
                       (if ok then ''ok - created selector '' @ sel
                        else ''error '' @ quoted (''Failed to create selector '' @ sel))\<rparr>) h1)
         | Some hit \<Rightarrow>
             (if normalizeWs (fullValue hit) \<noteq> normalizeWs (Some desiredValue) then
                (case updateDomainDKIMRecord cfg w domainName sel desiredValue h of
                   (ok, h1) \<Rightarrow>
                     ensureSelectors cfg w domainName dkimResults entries
                       (result\<lparr>dkimStatus :=
                          (if ok then ''ok - updated selector '' @ sel
                           else ''error '' @ quoted (''Failed to update selector '' @ sel))\<rparr>) h1)
              else ensureSelectors cfg w domainName dkimResults entries result h)))"

definition checkDKIMForDomain ::
    "config \<Rightarrow> world \<Rightarrow> string \<Rightarrow> dkimConfig \<Rightarrow> checkResult \<Rightarrow> history
      \<Rightarrow> checkResult \<times> history" where
  "checkDKIMForDomain cfg w domainName dkimConfig result h =
     (let desiredFromConfig = (case dkimConfig domainName of None \<Rightarrow> [] | Some d \<Rightarrow> d);
          hasNonEmptyValues =
            list_ex (\<lambda>v. v \<noteq> [] \<and> trim v \<noteq> []) (map snd desiredFromConfig)
      in if length desiredFromConfig = 0 \<or> \<not> hasNonEmptyValues then
           (result\<lparr>dkimCheckConsole := GrayDash, dkimInfo := ''DKIM: Skipped'',
                   dkimStatus := ''skipped''\<rparr>, h)
         else
           (case checkDKIMRecords cfg w domainName h of
              (dkimResults0, h1) \<Rightarrow>
                (case (if length dkimResults0 = 0 then
                         (case listZoneDKIMRecords w domainName h1 of
                            (zoneDkim, h2) \<Rightarrow>
                              (if length zoneDkim > 0 then zoneDkim else dkimResults0, h2))
                       else (dkimResults0, h1)) of
                   (dkimResults, h2) \<Rightarrow>
                     (let selectors = joinWith '', '' (map selector dkimResults);
                          result1 =
                            (if length dkimResults > 0 then
                               result\<lparr>dkimCheckConsole := GreenCheck,
                                      dkimInfo := ''DKIM: Found ('' @ selectors @ '')'',
                                      dkimStatus := ''ok - selectors: '' @ selectors\<rparr>
                             else
                               result\<lparr>dkimCheckConsole := RedCross,
                                      dkimInfo := ''DKIM: No records found'',
                                      dkimStatus := ''fail '' @ quoted ''No DKIM records found''\<rparr>)
                      in ensureSelectors cfg w domainName dkimResults desiredFromConfig
                           result1 h2))))"

text \<open>
  The SPF query of \<^verbatim>\<open>checkDomain\<close> races against a timer of five seconds: the query
  is sent, and when its answer is slow the race is lost to the error of the timer.
\<close>

definition spfQueryWithTimeout ::
    "world \<Rightarrow> string \<Rightarrow> history \<Rightarrow> (jserror + string option) \<times> history" where
  "spfQueryWithTimeout w domainName h =
     (if txtSlow w h domainName then (Inl (Error ''SPF query timeout''), h @ [DnsQuery TXT domainName])
      else getSPFRecord w domainName h)"

text \<open>The characters of a string that is known to be present.\<close>

definition chars :: "string option \<Rightarrow> string" where
  "chars v = (case v of None \<Rightarrow> [] | Some s \<Rightarrow> s)"

definition skippedStatus :: string where
  "skippedStatus = ''skipped - not using AutoDNS nameservers''"

text \<open>
  \<^verbatim>\<open>checkDomain\<close>, block by block. The SPF query: the result so far, the flag
  \<^verbatim>\<open>spfNeedsUpdate\<close> and the string \<^verbatim>\<open>spfCurrentValue\<close>.
\<close>

definition checkSpf ::
    "config \<Rightarrow> world \<Rightarrow> string \<Rightarrow> checkResult \<Rightarrow> history
      \<Rightarrow> (checkResult \<times> bool \<times> string) \<times> history" where
  "checkSpf cfg w domainName result h =
     (case spfQueryWithTimeout w domainName h of
        (Inr currentSpf, h1) \<Rightarrow>
          (if currentSpf = Some (expectedSpf cfg) then
             ((result\<lparr>spfCheckConsole := GreenCheck, spfRecord := ''SPF: Correct'',
                      spfStatus := ''ok''\<rparr>, False, []), h1)
           else if truthy currentSpf then
             ((result\<lparr>spfCheckConsole := RedCross, spfRecord := ''SPF: '' @ chars currentSpf,
                      spfStatus := ''needs-update''\<rparr>, True, chars currentSpf), h1)
           else
             ((result\<lparr>spfCheckConsole := RedCross, spfRecord := ''SPF: No record'',
                      spfStatus := ''needs-update''\<rparr>, True, ''No SPF record''), h1))
      | (Inl error, h1) \<Rightarrow>
          ((result\<lparr>spfCheckConsole := RedCross, spfRecord := ''SPF Error: '' @ message error,
                   spfStatus := ''error''\<rparr>, False, message error), h1))"

text \<open>The DMARC query: the result, \<^verbatim>\<open>dmarcNeedsUpdate\<close> and \<^verbatim>\<open>dmarcCurrentValue\<close>.\<close>

definition checkDmarc ::
    "config \<Rightarrow> world \<Rightarrow> string \<Rightarrow> checkResult \<Rightarrow> history
      \<Rightarrow> (checkResult \<times> bool \<times> string) \<times> history" where
  "checkDmarc cfg w domainName result h =
     (case getDMARCRecord w domainName h of
        (Inr currentDmarc, h1) \<Rightarrow>
          (if normalizeDMARC currentDmarc = normalizeDMARC (Some (expectedDmarc cfg)) then
             ((result\<lparr>dmarcCheckConsole := GreenCheck, dmarcRecord := ''DMARC: Correct'',
                      dmarcStatus := ''ok''\<rparr>, False, []), h1)
           else if truthy currentDmarc then
             ((result\<lparr>dmarcCheckConsole := RedCross,
                      dmarcRecord := ''DMARC: '' @ chars currentDmarc,
                      dmarcStatus := ''needs-update''\<rparr>, True, chars currentDmarc), h1)
           else
             ((result\<lparr>dmarcCheckConsole := RedCross, dmarcRecord := ''DMARC: No record'',
                      dmarcStatus := ''needs-update''\<rparr>, True, ''No DMARC record''), h1))
      | (Inl error, h1) \<Rightarrow>
          ((result\<lparr>dmarcCheckConsole := RedCross,
                   dmarcRecord := ''DMARC Error: '' @ message error,
                   dmarcStatus := ''error''\<rparr>, False, message error), h1))"

text \<open>The block \<^verbatim>\<open>Update SPF record if needed\<close>.\<close>

definition updateSpfIfNeeded ::
    "config \<Rightarrow> world \<Rightarrow> string \<Rightarrow> bool \<Rightarrow> string \<Rightarrow> checkResult \<Rightarrow> history
      \<Rightarrow> checkResult \<times> history" where
  "updateSpfIfNeeded cfg w domainName spfNeedsUpdate spfCurrentValue result h =
     (if spfNeedsUpdate then
        (case updateDomainSPFRecord cfg w domainName (expectedSpf cfg) h of
           (Inr _, h1) \<Rightarrow>
             (result\<lparr>spfCheckConsole := GreenCheckUpdated,
                     spfRecord := ''SPF: Correct (updated)'',
                     spfStatus := ''ok - updated from '' @ quoted spfCurrentValue\<rparr>, h1)
         | (Inl error, h1) \<Rightarrow>
             (result\<lparr>spfCheckConsole := RedCrossFailed,
                     spfStatus := ''error '' @ quoted (''Update failed: '' @ message error)\<rparr>,
              h1))
      else if spfStatus result = ''error'' then
        (result\<lparr>spfStatus := ''error '' @ quoted spfCurrentValue\<rparr>, h)
      else (result, h))"

text \<open>
  The block \<^verbatim>\<open>Update DMARC record if needed\<close>. The two calls in the \<^verbatim>\<open>try\<close> return a
  truth value that the block does not read; neither of them throws.
\<close>

definition updateDmarcIfNeeded ::
    "config \<Rightarrow> world \<Rightarrow> string \<Rightarrow> bool \<Rightarrow> string \<Rightarrow> checkResult \<Rightarrow> history
      \<Rightarrow> checkResult \<times> history" where
  "updateDmarcIfNeeded cfg w domainName dmarcNeedsUpdate dmarcCurrentValue result h =
     (if dmarcNeedsUpdate then
        (case addDMARCReportAuthRecord cfg w domainName h of
           (authorized, h1) \<Rightarrow>
             (case updateDomainDMARCRecord cfg w domainName (expectedDmarc cfg) h1 of
                (updated, h2) \<Rightarrow>
                  (result\<lparr>dmarcCheckConsole := GreenCheckUpdated,
                          dmarcRecord := ''DMARC: Correct (updated)'',
                          dmarcStatus := ''ok - updated from '' @ quoted dmarcCurrentValue\<rparr>,
                   h2)))
      else if dmarcStatus result = ''error'' then
        (result\<lparr>dmarcStatus := ''error '' @ quoted dmarcCurrentValue\<rparr>, h)
      else (result, h))"

text \<open>
  \<^verbatim>\<open>checkDomain\<close>. Every call inside its outer \<^verbatim>\<open>try\<close> either catches its own errors
  or stands in an inner \<^verbatim>\<open>try\<close>, so the outer \<^verbatim>\<open>catch\<close> has no branch here.
\<close>

definition checkDomain ::
    "config \<Rightarrow> world \<Rightarrow> string \<Rightarrow> dkimConfig \<Rightarrow> history \<Rightarrow> checkResult \<times> history" where
  "checkDomain cfg w domainName dkimConfig h =
     (case usesAutoDNSNameservers w domainName h of
        (usesAutoDNS, h0) \<Rightarrow>
          (if \<not> usesAutoDNS then
             (case getRecordsForDomain w domainName
                     (initialResult\<lparr>spfStatus := skippedStatus, dmarcStatus := skippedStatus,
                                    dkimStatus := skippedStatus\<rparr>) h0 of
                (result1, h1) \<Rightarrow> addHealthChecks w domainName result1 h1)
           else
             (case checkSpf cfg w domainName initialResult h0 of
                ((result1, spfNeedsUpdate, spfCurrentValue), h1) \<Rightarrow>
             case checkDmarc cfg w domainName result1 h1 of
                ((result2, dmarcNeedsUpdate, dmarcCurrentValue), h2) \<Rightarrow>
             case checkDKIMForDomain cfg w domainName dkimConfig result2 h2 of
                (result3, h3) \<Rightarrow>
             case updateSpfIfNeeded cfg w domainName spfNeedsUpdate spfCurrentValue result3 h3 of
                (result4, h4) \<Rightarrow>
             case updateDmarcIfNeeded cfg w domainName dmarcNeedsUpdate dmarcCurrentValue
                    result4 h4 of
                (result5, h5) \<Rightarrow>
             case getRecordsForDomain w domainName result5 h5 of
                (result6, h6) \<Rightarrow> addHealthChecks w domainName result6 h6)))"

section \<open>updateZone on the object store\<close>

text \<open>
  To follow what \<^verbatim>\<open>updateZone\<close> does to the object it is given, objects live in a
  store: an address is an index into the list of objects, a value is a primitive (its
  text) or the address of an object, and an object lists its own properties in order.
\<close>

datatype jsval = Prim string | Ref nat

type_synonym jsobj = "(string \<times> jsval) list"

type_synonym store = "jsobj list"

text \<open>\<^verbatim>\<open>{ ...obj }\<close>: a new object with the properties of the old one.\<close>

definition spreadCopy :: "store \<Rightarrow> nat \<Rightarrow> store \<times> nat" where
  "spreadCopy st a = (st @ [st ! a], length st)"

text \<open>\<^verbatim>\<open>delete obj[field]\<close>\<close>

definition deleteProp :: "store \<Rightarrow> nat \<Rightarrow> string \<Rightarrow> store" where
  "deleteProp st a field = st[a := deleteField (st ! a) field]"

text \<open>The requests sent: the zone name and the properties of the payload object.\<close>

type_synonym sent = "(string \<times> jsobj) list"

text \<open>The attempt of \<^verbatim>\<open>updateZone\<close>: build the payload, send it.\<close>

definition putAttemptStore ::
    "(sent \<Rightarrow> string \<Rightarrow> jsobj \<Rightarrow> jserror + apiResponse) \<Rightarrow> string \<Rightarrow> nat \<Rightarrow> store \<times> sent
      \<Rightarrow> apiResponse attempt \<times> (store \<times> sent)" where
  "putAttemptStore answer sanitizedZone zoneData s =
     (case s of (st, out) \<Rightarrow>
      case spreadCopy st zoneData of (st1, updatePayload) \<Rightarrow>
      let st2 = foldl (\<lambda>s field. deleteProp s updatePayload field) st1 readOnlyFields;
          body = st2 ! updatePayload
      in case answer out sanitizedZone body of
           Inr response \<Rightarrow> (Success response, (st2, out @ [(sanitizedZone, body)]))
         | Inl error \<Rightarrow>
             (if \<not> isRetryableError error
              then (Abort error, (st2, out @ [(sanitizedZone, body)]))
              else (Throw error, (st2, out @ [(sanitizedZone, body)]))))"

definition updateZoneStore ::
    "config \<Rightarrow> (sent \<Rightarrow> string \<Rightarrow> jsobj \<Rightarrow> jserror + apiResponse) \<Rightarrow> string \<Rightarrow> nat
      \<Rightarrow> store \<times> sent \<Rightarrow> (jserror + apiResponse) \<times> (store \<times> sent)" where
  "updateZoneStore cfg answer zoneName zoneData s =
     (case sanitizeDomainName zoneName of
        Inl e \<Rightarrow> (Inl e, s)
      | Inr sanitizedZone \<Rightarrow>
          (if dryRun cfg then (Inr dryRunSuccess, s)
           else pRetry RETRY_CONFIG (\<lambda>ms s. s)
                  (putAttemptStore answer sanitizedZone zoneData) s))"

section \<open>Vocabulary and examples of the properties\<close>

subsection \<open>The flattener\<close>

text \<open>The names asked for in TXT queries, in the order of the queries.\<close>

fun txtNames :: "history \<Rightarrow> string list" where
  "txtNames [] = []"
| "txtNames (DnsQuery q n # h) = (if q = TXT then n # txtNames h else txtNames h)"
| "txtNames (e # h) = txtNames h"

text \<open>
  What a run of the flattener does to the visited set and to the history: it appends
  requests, the TXT queries among them are for pairwise different names, none of them
  for a name that was visited before, and the visited set grows by exactly these names.
\<close>

definition spfFrame :: "string set \<Rightarrow> history \<Rightarrow> string set \<Rightarrow> history \<Rightarrow> bool" where
  "spfFrame v h v' h' =
     (\<exists>new. h' = h @ new \<and> distinct (txtNames new) \<and> set (txtNames new) \<inter> v = {} \<and>
            v' = v \<union> set (txtNames new))"

text \<open>A step that sends no TXT query.\<close>

definition quiet :: "history \<Rightarrow> history \<Rightarrow> bool" where
  "quiet h h1 = (\<exists>new. h1 = h @ new \<and> txtNames new = [])"

text \<open>
  The \<^verbatim>\<open>all\<close> modifier as the parser of \<^verbatim>\<open>resolveSpfIncludes\<close> recognises it, and the
  record the output assembly is specified to build from the resolved terms: the version
  token, the mechanisms without repetition, the modifiers that are not an \<^verbatim>\<open>all\<close>
  modifier, and the \<^verbatim>\<open>all\<close> modifier last.
\<close>

definition isAllModifier :: "string \<Rightarrow> bool" where
  "isAllModifier part =
     (part = ''all'' \<or> startsWith part ''-all'' \<or> startsWith part ''~all'' \<or>
      startsWith part ''+all'' \<or> startsWith part ''?all'')"

definition assembleSpec :: "spfResult \<Rightarrow> string" where
  "assembleSpec resolved =
     joinWith '' ''
       (''v=spf1'' # newSet (mechanisms resolved)
          @ filter (\<lambda>m. \<not> isAllModifier m) (newSet (modifiers resolved))
          @ (case find isAllModifier (newSet (modifiers resolved)) of
               None \<Rightarrow> [] | Some m \<Rightarrow> [m]))"

text \<open>The error of a name that does not exist.\<close>

definition enotfound :: jserror where
  "enotfound = \<lparr>message = ''queryTxt ENOTFOUND'', code = Some ''ENOTFOUND'', status = None\<rparr>"

text \<open>No name resolves and no request succeeds.\<close>

definition noRecords :: world where
  "noRecords =
     \<lparr>txtAnswer = (\<lambda>h n. Inl enotfound), aAnswer = (\<lambda>h n. Inl enotfound),
      aaaaAnswer = (\<lambda>h n. Inl enotfound), mxAnswer = (\<lambda>h n. Inl enotfound),
      nsAnswer = (\<lambda>h n. Inl enotfound), soaAnswer = (\<lambda>h n. Inl enotfound),
      caaAnswer = (\<lambda>h n. Inl enotfound), ptrAnswer = (\<lambda>h n. Inl enotfound),
      httpsAnswer = (\<lambda>h n. Inl enotfound), searchAnswer = (\<lambda>h. Inl enotfound),
      getAnswer = (\<lambda>h n. Inl enotfound), putAnswer = (\<lambda>h n z. Inl enotfound),
      txtSlow = (\<lambda>h n. False)\<rparr>"

text \<open>Two SPF records that include each other.\<close>

definition cyclicIncludes :: world where
  "cyclicIncludes = noRecords\<lparr>txtAnswer := (\<lambda>h n.
       if n = ''a.com'' then Inr [[''v=spf1 include:b.com ip4:1.1.1.1 -all'']]
       else if n = ''b.com'' then Inr [[''v=spf1 include:a.com ip4:2.2.2.2 ~all'']]
       else Inl enotfound)\<rparr>"

text \<open>Two names that carry the same SPF record.\<close>

definition sharedInclude :: world where
  "sharedInclude = noRecords\<lparr>txtAnswer := (\<lambda>h n.
       if n = ''x.com'' \<or> n = ''y.com'' then Inr [[''v=spf1 ip4:1.1.1.1 -all'']]
       else Inl enotfound)\<rparr>"

subsection \<open>The retry policy\<close>

text \<open>
  The words of the retry policy. A status of an HTTP response is a number from 100 to
  599; an error is retryable by the specification when it is a connection reset, a
  timeout or a failed name resolution (which the transport reports under the three codes
  below), or a response with a status 5xx or 429.
\<close>

definition validStatus :: "jserror \<Rightarrow> bool" where
  "validStatus e = (case status e of None \<Rightarrow> True | Some st \<Rightarrow> 100 \<le> st \<and> st \<le> 599)"

definition retryableBySpec :: "jserror \<Rightarrow> bool" where
  "retryableBySpec e =
     (code e = Some ''ECONNRESET'' \<or> code e = Some ''ETIMEDOUT'' \<or>
      code e = Some ''ENOTFOUND'' \<or>
      (case status e of None \<Rightarrow> False | Some st \<Rightarrow> (500 \<le> st \<and> st \<le> 599) \<or> st = 429))"

definition isApiRequest :: "event \<Rightarrow> bool" where
  "isApiRequest e =
     (case e of ApiSearch \<Rightarrow> True | ApiGet _ \<Rightarrow> True | ApiPut _ _ \<Rightarrow> True | _ \<Rightarrow> False)"

text \<open>An API that refuses: the search answers 404, every zone read answers 429.\<close>

definition notFound404 :: jserror where
  "notFound404 =
     \<lparr>message = ''Request failed with status code 404'', code = Some ''ERR_BAD_REQUEST'',
      status = Some 404\<rparr>"

definition tooMany429 :: jserror where
  "tooMany429 =
     \<lparr>message = ''Request failed with status code 429'', code = Some ''ERR_BAD_REQUEST'',
      status = Some 429\<rparr>"

definition denied :: world where
  "denied = noRecords\<lparr>searchAnswer := (\<lambda>h. Inl notFound404),
                       getAnswer := (\<lambda>h n. Inl tooMany429)\<rparr>"

subsection \<open>The reconcilers and the per-domain check\<close>

text \<open>The zone writes of a history, and a stretch of history without a zone write.\<close>

definition isPut :: "event \<Rightarrow> bool" where
  "isPut e = (case e of ApiPut _ _ \<Rightarrow> True | _ \<Rightarrow> False)"

definition zoneWrites :: "history \<Rightarrow> history" where
  "zoneWrites h = filter isPut h"

definition readOnly :: "history \<Rightarrow> history \<Rightarrow> bool" where
  "readOnly h h' = (\<exists>new. h' = h @ new \<and> zoneWrites new = [])"

text \<open>Example settings: changes are sent to the API.\<close>

definition liveConfig :: config where
  "liveConfig =
     \<lparr>dryRun = False, expectedSpf = ''v=spf1 a mx include:_spf.diebasis.de -all'',
      expectedDmarc = ''v=DMARC1; p=reject'', dmarcReportAuthDomain = ''diebasis.de'',
      dkimSelectors = [''default'']\<rparr>"

subsection \<open>The records shown and the health report\<close>





text \<open>
  A list of records as it is shown, and the host names read back from a shown list.
\<close>

definition shown :: "string list \<Rightarrow> string" where
  "shown xs = (if xs = [] then ''-'' else joinWith '','' xs)"

definition shownHosts :: "string \<Rightarrow> string list" where
  "shownHosts disp = (if disp = ''-'' then [] else splitOn CHR '','' disp)"



















subsection \<open>updateZone on the object store\<close>

text \<open>The payload the specification asks for: the properties that are not read-only.\<close>

definition strippedCopy :: "jsobj \<Rightarrow> jsobj" where
  "strippedCopy obj = filter (\<lambda>(k, v). k \<notin> set readOnlyFields) obj"

text \<open>
  What a call of \<^verbatim>\<open>updateZone\<close> does to the store and to the requests sent: the store
  gains objects, and every new request carries the stripped copy of the object at \<open>a\<close>.
\<close>

definition storeFrame :: "nat \<Rightarrow> store \<times> sent \<Rightarrow> store \<times> sent \<Rightarrow> bool" where
  "storeFrame a s s' =
     (case (s, s') of ((st, out), (st', out')) \<Rightarrow>
        (\<exists>more new. st' = st @ more \<and> out' = out @ new \<and>
                    list_all (\<lambda>(z, body). body = strippedCopy (st ! a)) new))"

text \<open>
  A store with a zone object at address 0 whose record array and owner are objects of
  their own, and an API that accepts every write.
\<close>

definition zoneObject :: jsobj where
  "zoneObject = [(''origin'', Prim ''example.com''), (''created'', Prim ''2020-01-01''),
     (''resourceRecords'', Ref 1), (''roid'', Prim ''42''), (''owner'', Ref 2)]"

definition sampleStore :: store where
  "sampleStore =
     [zoneObject, [(''0'', Ref 3)], [(''user'', Prim ''admin'')], [(''name'', Prim ''www'')]]"

definition accepts :: "sent \<Rightarrow> string \<Rightarrow> jsobj \<Rightarrow> jserror + apiResponse" where
  "accepts out z body = Inr \<lparr>rstatus = Some \<lparr>stype = ''SUCCESS'', stext = []\<rparr>, rdata = None\<rparr>"

subsection \<open>Example domains\<close>

text \<open>
  A domain on the provider's name servers whose DMARC record differs from the expected
  one, with an API that answers every zone read and rejects every zone write with 400.
\<close>

definition badRequest400 :: jserror where
  "badRequest400 =
     \<lparr>message = ''Request failed with status code 400'', code = Some ''ERR_BAD_REQUEST'',
      status = Some 400\<rparr>"

definition emptyZone :: apiResponse where
  "emptyZone =
     \<lparr>rstatus = Some \<lparr>stype = ''SUCCESS'', stext = []\<rparr>,
      rdata = Some [\<lparr>resourceRecords = Some [],
                     otherFields = [(''origin'', ''example.com'')]\<rparr>]\<rparr>"

definition rejecting :: world where
  "rejecting = noRecords\<lparr>
     txtAnswer := (\<lambda>h n. if n = ''_dmarc.example.com'' then Inr [[''v=DMARC1; p=none'']]
                         else Inl enotfound),
     nsAnswer := (\<lambda>h n. Inr [''a.ns14.net'', ''b.ns14.net'']),
     getAnswer := (\<lambda>h n. Inr emptyZone),
     putAnswer := (\<lambda>h n z. Inl badRequest400)\<rparr>"




text \<open>A desired DKIM configuration without an entry for any domain.\<close>

definition noDkim :: dkimConfig where
  "noDkim = (\<lambda>d. None)"

text \<open>A zone with a CNAME record at the apex, and an API that answers with it.\<close>

definition apexCname :: rr where
  "apexCname = \<lparr>name = ''@'', rtype = ''CNAME'', rvalue = ''target.example.net'', ttl = 3600\<rparr>"

definition aliasedZone :: apiResponse where
  "aliasedZone =
     \<lparr>rstatus = Some \<lparr>stype = ''SUCCESS'', stext = []\<rparr>,
      rdata = Some [\<lparr>resourceRecords = Some [apexCname], otherFields = []\<rparr>]\<rparr>"

definition aliased :: world where
  "aliased = noRecords\<lparr>getAnswer := (\<lambda>h n. Inr aliasedZone)\<rparr>"

text \<open>A desired DKIM configuration whose only selector has the empty value.\<close>

definition emptySelector :: dkimConfig where
  "emptySelector = (\<lambda>d. if d = ''example.com'' then Some [(''default'', [])] else None)"

section \<open>Properties of the SPF flattener\<close>

lemma txtNames_append: "txtNames (h @ h') = txtNames h @ txtNames h'"
  by (induction h rule: txtNames.induct) auto

lemma spfFrame_refl: "spfFrame v h v h"
  by (auto simp: spfFrame_def)

lemma spfFrame_trans: "spfFrame v h v1 h1 \<Longrightarrow> spfFrame v1 h1 v2 h2 \<Longrightarrow> spfFrame v h v2 h2"
  unfolding spfFrame_def
  apply clarify
  subgoal for new1 new2
    by (rule exI[of _ "new1 @ new2"]) (auto simp: txtNames_append)
  done

lemma getSPFRecord_history: "getSPFRecord w n h = (r, h1) \<Longrightarrow> h1 = h @ [DnsQuery TXT n]"
  by (auto simp: getSPFRecord_def resolveTxt_def split: sum.splits list.splits if_splits)

lemma spfFrame_include:
  "n \<notin> v \<Longrightarrow> getSPFRecord w n h = (r, h1) \<Longrightarrow> spfFrame v h (insert n v) h1"
  by (auto simp: spfFrame_def dest!: getSPFRecord_history)

lemma resolveHostToIPs_history:
  "resolveHostToIPs w n h = (r, h1) \<Longrightarrow> h1 = h @ [DnsQuery A n, DnsQuery AAAA n]"
  by (auto simp: resolveHostToIPs_def resolve4_def resolve6_def Let_def split: sum.splits)

lemma resolveHostToIPs_Inr: "\<exists>ips. fst (resolveHostToIPs w n h) = Inr ips"
  by (auto simp: resolveHostToIPs_def resolve4_def resolve6_def Let_def split: sum.splits prod.splits)

lemma mxLoop_history:
  "mxLoop w mxs ips h = (r, h1) \<Longrightarrow> \<exists>new. h1 = h @ new \<and> txtNames new = []"
proof (induction mxs arbitrary: ips h)
  case Nil then show ?case by simp
next
  case (Cons mx mxs)
  obtain r0 h0 where r0: "resolveHostToIPs w (exchange mx) h = (r0, h0)" by force
  from resolveHostToIPs_history[OF r0] have h0: "h0 = h @ [DnsQuery A (exchange mx), DnsQuery AAAA (exchange mx)]" .
  show ?case
  proof (cases r0)
    case (Inl e)
    with Cons.prems r0 h0 show ?thesis by auto
  next
    case (Inr mxIps)
    with Cons.prems r0 have "mxLoop w mxs (ips @ mxIps) h0 = (r, h1)" by simp
    from Cons.IH[OF this] obtain new where "h1 = h0 @ new" "txtNames new = []" by blast
    with h0 show ?thesis by (intro exI[of _ "[DnsQuery A (exchange mx), DnsQuery AAAA (exchange mx)] @ new"]) simp
  qed
qed

lemma resolveMxToIPs_history:
  "resolveMxToIPs w n h = (r, h1) \<Longrightarrow> \<exists>new. h1 = h @ new \<and> txtNames new = []"
  unfolding resolveMxToIPs_def resolveMx_def
  by (auto split: sum.splits prod.splits dest!: mxLoop_history)

lemma quiet_refl: "quiet h h"
  by (simp add: quiet_def)

lemma quiet_host: "resolveHostToIPs w n h = (r, h1) \<Longrightarrow> quiet h h1"
  by (drule resolveHostToIPs_history) (simp add: quiet_def)

lemma quiet_mx: "resolveMxToIPs w n h = (r, h1) \<Longrightarrow> quiet h h1"
  by (drule resolveMxToIPs_history) (simp add: quiet_def)

lemma spfFrame_quiet: "quiet h h1 \<Longrightarrow> spfFrame v h v h1"
  by (auto simp: spfFrame_def quiet_def)

lemma resolveParts_Cons_cases:
  assumes "resolveParts w (part # parts) d ms mo v h = R"
  obtains
    (skip) ms' mo' h1 where "quiet h h1" "resolveParts w parts d ms' mo' v h1 = R"
  | (enter) g h1 where "drop 8 part \<notin> v" "getSPFRecord w (drop 8 part) h = (g, h1)"
      "resolveParts w parts d ms mo (insert (drop 8 part) v) h1 = R"
  | (recurse) s h1 res v2 h2 where "drop 8 part \<notin> v"
      "getSPFRecord w (drop 8 part) h = (Inr (Some s), h1)"
      "resolveSpfIncludes w s (insert (drop 8 part) v) (d + 1) h1 = (res, v2, h2)"
      "resolveParts w parts d (ms @ mechanisms res) (mo @ modifiers res) v2 h2 = R"
proof (cases "part \<noteq> ''v=spf1'' \<and> startsWith part ''include:'' \<and> drop 8 part \<notin> v")
  case True
  obtain g h1 where g: "getSPFRecord w (drop 8 part) h = (g, h1)" by force
  show ?thesis
  proof (cases "\<exists>s. g = Inr (Some s) \<and> s \<noteq> []")
    case False
    with True g assms have "resolveParts w parts d ms mo (insert (drop 8 part) v) h1 = R"
      by (auto simp: Let_def split: sum.splits option.splits)
    with True g show ?thesis by (intro enter) auto
  next
    case t: True
    then obtain s where s: "g = Inr (Some s)" "s \<noteq> []" by blast
    obtain res v2 h2 where r: "resolveSpfIncludes w s (insert (drop 8 part) v) (d + 1) h1 = (res, v2, h2)"
      by (metis prod_cases3)
    with True g s assms
    have "resolveParts w parts d (ms @ mechanisms res) (mo @ modifiers res) v2 h2 = R"
      by (simp add: Let_def)
    with True g s r show ?thesis by (intro recurse) auto
  qed
next
  case False
  show ?thesis
  proof (cases "startsWith part ''a:''")
    case a: True
    obtain r h1 where r: "resolveHostToIPs w (drop 2 part) h = (r, h1)" by force
    from quiet_host[OF r] have q: "quiet h h1" .
    from False assms r a q quiet_refl[of h] show ?thesis
      by (auto simp: Let_def split: if_splits sum.splits intro: skip)
  next
    case na: False
    show ?thesis
    proof (cases "startsWith part ''mx:''")
      case m: True
      obtain r h1 where r: "resolveMxToIPs w (drop 3 part) h = (r, h1)" by force
      from quiet_mx[OF r] have q: "quiet h h1" .
      from False assms r na m q quiet_refl[of h] show ?thesis
        by (auto simp: Let_def split: if_splits sum.splits intro: skip)
    next
      case nm: False
      from False assms na nm quiet_refl[of h] show ?thesis
        by (auto simp: Let_def split: if_splits intro: skip)
    qed
  qed
qed

lemma resolveParts_frame_step:
  assumes inner: "\<And>s v h r v' h'. resolveSpfIncludes w s v (d + 1) h = (r, v', h') \<Longrightarrow> spfFrame v h v' h'"
  shows "resolveParts w ps d ms mo v h = (r, v', h') \<Longrightarrow> spfFrame v h v' h'"
proof (induction ps arbitrary: ms mo v h)
  case Nil
  then show ?case by (simp add: spfFrame_refl)
next
  case (Cons part parts)
  from Cons.prems show ?case
  proof (cases rule: resolveParts_Cons_cases)
    case (skip ms' mo' h1)
    from spfFrame_quiet[OF skip(1)] Cons.IH[OF skip(2)] show ?thesis
      by (rule spfFrame_trans)
  next
    case (enter g h1)
    from spfFrame_include[OF enter(1,2)] Cons.IH[OF enter(3)] show ?thesis
      by (rule spfFrame_trans)
  next
    case (recurse s h1 res v2 h2)
    from spfFrame_include[OF recurse(1,2)] inner[OF recurse(3)]
    have "spfFrame v h v2 h2" by (rule spfFrame_trans)
    from this Cons.IH[OF recurse(4)] show ?thesis by (rule spfFrame_trans)
  qed
qed

lemma resolveSpfIncludes_frame:
  "resolveSpfIncludes w s v d h = (r, v', h') \<Longrightarrow> spfFrame v h v' h'"
proof (induction "11 - d" arbitrary: d s v h r v' h')
  case 0
  then show ?case by (auto simp: spfFrame_refl split: if_splits)
next
  case (Suc n)
  from Suc.hyps(2) have d: "\<not> d > 10" "n = 11 - (d + 1)" by auto
  have inner: "\<And>s v h r v' h'. resolveSpfIncludes w s v (d + 1) h = (r, v', h') \<Longrightarrow> spfFrame v h v' h'"
    using Suc.hyps(1)[OF d(2)] .
  from Suc.prems d(1) have "resolveParts w (splitWs s) d [] [] v h = (r, v', h')" by simp
  from resolveParts_frame_step[OF inner this] show ?case .
qed

text \<open>
  C1. For every SPF record, every answer of the resolver (cyclic include graphs among
  them), every visited set and every depth, \<^verbatim>\<open>resolveSpfIncludes\<close> returns: it is a total
  function, its recursion measured by the depth bound and the length of the record. The
  TXT queries it sends, one for each include it enters, are for pairwise different names
  and never for a name already in the visited set, and the visited set grows by exactly
  these names. Called at a depth above 10 it returns the empty result without sending a
  request.
\<close>

theorem resolveSpfIncludes_terminates_guarded:
  "\<exists>r visited' new.
     resolveSpfIncludes w spf visited depth h = (r, visited', h @ new) \<and>
     distinct (txtNames new) \<and> set (txtNames new) \<inter> visited = {} \<and>
     visited' = visited \<union> set (txtNames new) \<and>
     (10 < depth \<longrightarrow> r = \<lparr>mechanisms = [], modifiers = []\<rparr> \<and> new = [])"
proof -
  obtain r v' h' where run: "resolveSpfIncludes w spf visited depth h = (r, v', h')"
    by (metis prod_cases3)
  from resolveSpfIncludes_frame[OF run] obtain new where new:
    "h' = h @ new" "distinct (txtNames new)" "set (txtNames new) \<inter> visited = {}"
    "v' = visited \<union> set (txtNames new)"
    unfolding spfFrame_def by blast
  have "10 < depth \<longrightarrow> r = \<lparr>mechanisms = [], modifiers = []\<rparr> \<and> new = []"
    using run new(1) by auto
  with run new show ?thesis by blast
qed

theorem resolveSpfIncludes_terminates_guarded_witness:
  "(10::nat) < 11 \<and>
   resolveSpfIncludes cyclicIncludes ''v=spf1 a mx -all'' {} 11 [] =
     (\<lparr>mechanisms = [], modifiers = []\<rparr>, {}, [])"
  using resolveSpfIncludes_terminates_guarded
          [of cyclicIncludes "''v=spf1 a mx -all''" "{}" 11 "[]"]
  by auto

text \<open>The cyclic pair of records: each of the two names is resolved once.\<close>

lemma resolveSpfIncludes_cycle:
  "resolveSpfIncludes cyclicIncludes ''v=spf1 include:a.com -all'' {} 0 [] =
     (\<lparr>mechanisms = [''ip4:2.2.2.2'', ''ip4:1.1.1.1''],
       modifiers = [''~all'', ''-all'', ''-all'']\<rparr>,
      {''b.com'', ''a.com''}, [DnsQuery TXT ''a.com'', DnsQuery TXT ''b.com''])"
  by (simp add: cyclicIncludes_def noRecords_def getSPFRecord_def resolveTxt_def isSpace_def
        Let_def insert_commute)

text \<open>The array made from a Set has the elements of the list, each once.\<close>

lemma foldl_setAdd:
  "set (foldl setAdd acc xs) = set acc \<union> set xs \<and>
   (distinct acc \<longrightarrow> distinct (foldl setAdd acc xs))"
  by (induction xs arbitrary: acc) (auto simp: setAdd_def)

lemma set_newSet: "set (newSet xs) = set xs"
  by (simp add: newSet_def foldl_setAdd)

lemma distinct_newSet: "distinct (newSet xs)"
  by (simp add: newSet_def foldl_setAdd)

lemma startsWith_includesStr: "startsWith s p \<Longrightarrow> includesStr s p"
  by (cases s) (auto elim: startsWith.elims)

lemma includesStr_Cons: "includesStr s p \<Longrightarrow> includesStr (c # s) p"
  by simp

lemma isAllModifier_includesStr: "isAllModifier m \<Longrightarrow> includesStr m ''all''"
proof -
  assume a: "isAllModifier m"
  show ?thesis
  proof (cases "m = ''all''")
    case True
    then show ?thesis by simp
  next
    case False
    with a obtain c rest where m: "m = c # rest" "startsWith rest ''all''"
      by (cases m) (auto simp: isAllModifier_def)
    from startsWith_includesStr[OF m(2)] m(1) show ?thesis by simp
  qed
qed

text \<open>
  When every resolved modifier that contains \<^verbatim>\<open>all\<close> is an \<^verbatim>\<open>all\<close> modifier, the
  assembly builds the specified record.
\<close>

lemma buildFlattenedSpfRecord_assembleSpec:
  assumes "\<forall>m \<in> set (modifiers (fst (resolveSpfIncludes w s {} 0 h))).
             includesStr m ''all'' \<longrightarrow> isAllModifier m"
  shows "fst (buildFlattenedSpfRecord w s h) = assembleSpec (fst (resolveSpfIncludes w s {} 0 h))"
proof -
  obtain r v h1 where run: "resolveSpfIncludes w s {} 0 h = (r, v, h1)"
    by (metis prod_cases3)
  let ?ms = "newSet (modifiers r)"
  from assms run have eq: "\<And>m. m \<in> set ?ms \<Longrightarrow> includesStr m ''all'' = isAllModifier m"
    by (auto simp: set_newSet dest: isAllModifier_includesStr)
  have f1: "filter (\<lambda>m. \<not> includesStr m ''all'') ?ms = filter (\<lambda>m. \<not> isAllModifier m) ?ms"
    by (rule filter_cong) (simp_all add: eq)
  have f2: "find (\<lambda>m. includesStr m ''all'') ?ms = find isAllModifier ?ms"
    by (rule find_cong) (simp_all add: eq)
  have ne: "\<And>m. find isAllModifier ?ms = Some m \<Longrightarrow> m \<noteq> []"
    by (auto simp: find_Some_iff isAllModifier_def)
  show ?thesis
    using run f1 f2 ne
    by (auto simp: buildFlattenedSpfRecord_def assembleSpec_def Let_def split: option.splits)
qed

text \<open>
  C2. The record \<^verbatim>\<open>v=spf1 redirect=mall.example -all\<close> resolves to the modifiers
  \<^verbatim>\<open>redirect=mall.example\<close> and \<^verbatim>\<open>-all\<close>. The assembly looks for the \<^verbatim>\<open>all\<close> modifier
  with \<^verbatim>\<open>includes('all')\<close>, which the redirect satisfies too: the redirect is emitted in
  the place of the \<^verbatim>\<open>all\<close> modifier and \<^verbatim>\<open>-all\<close> is lost, where the specified assembly
  ends in \<^verbatim>\<open>-all\<close>.
\<close>

theorem buildFlattenedSpfRecord_loses_all:
  "fst (buildFlattenedSpfRecord noRecords ''v=spf1 redirect=mall.example -all'' []) =
     ''v=spf1 redirect=mall.example'' \<and>
   assembleSpec (fst (resolveSpfIncludes noRecords ''v=spf1 redirect=mall.example -all'' {} 0 [])) =
     ''v=spf1 redirect=mall.example -all''"
  by (simp add: buildFlattenedSpfRecord_def assembleSpec_def isAllModifier_def noRecords_def
        isSpace_def newSet_def setAdd_def Let_def)

text \<open>The example of the claim: two includes that resolve to the same record.\<close>

lemma buildFlattenedSpfRecord_sharedInclude:
  "fst (buildFlattenedSpfRecord sharedInclude ''v=spf1 include:x.com include:y.com -all'' []) =
     ''v=spf1 ip4:1.1.1.1 -all''"
  by (simp add: buildFlattenedSpfRecord_def sharedInclude_def noRecords_def getSPFRecord_def
        resolveTxt_def isSpace_def newSet_def setAdd_def enotfound_def Let_def)

text \<open>
  C7. The host of \<^verbatim>\<open>a:nohost.example\<close> has no address: both lookups fail.
  \<^verbatim>\<open>resolveHostToIPs\<close> swallows the two failures and returns no address, the fallback in
  the \<^verbatim>\<open>catch\<close> of \<^verbatim>\<open>resolveSpfIncludes\<close> is never reached, and the term is dropped from
  the mechanisms.
\<close>

theorem resolveSpfIncludes_drops_unresolved_host:
  "resolveSpfIncludes noRecords ''v=spf1 a:nohost.example -all'' {} 0 [] =
     (\<lparr>mechanisms = [], modifiers = [''-all'']\<rparr>, {},
      [DnsQuery A ''nohost.example'', DnsQuery AAAA ''nohost.example''])"
  by (simp add: noRecords_def resolveHostToIPs_def resolve4_def resolve6_def isSpace_def Let_def)

section \<open>Properties of the rate limiter\<close>

declare refillLoop.simps [simp del]

lemma refillLoop_eq:
  "refillLoop s p =
     (p @ take (tokens s) (queue s),
      s\<lparr>tokens := tokens s - length (queue s), queue := drop (tokens s) (queue s)\<rparr>)"
proof (induction s p rule: refillLoop.induct)
  case (1 s processed)
  show ?case
  proof (cases "tokens s > 0 \<and> length (queue s) > 0")
    case False
    then show ?thesis by (subst refillLoop.simps) auto
  next
    case True
    then obtain c rest where q: "queue s = c # rest" by (cases "queue s") auto
    from True obtain t where t: "tokens s = Suc t" by (cases "tokens s") auto
    from "1.IH"[OF True q] q t True show ?thesis
      by (subst refillLoop.simps) simp
  qed
qed

lemma refill_eq:
  "refill s = (take (capacity s) (queue s),
     s\<lparr>tokens := capacity s - length (queue s), queue := drop (capacity s) (queue s)\<rparr>)"
  by (simp add: refill_def refillLoop_eq)

lemma run_acquires:
  "runLimiter (map Acquire cs) (s, log) =
     (s\<lparr>tokens := tokens s - length cs, queue := queue s @ drop (tokens s) cs\<rparr>,
      log @ take (tokens s) cs)"
proof (induction cs arbitrary: s log)
  case Nil
  then show ?case by (simp add: runLimiter_def)
next
  case (Cons c cs)
  show ?case
  proof (cases "tokens s")
    case 0
    with Cons.IH[of "s\<lparr>queue := queue s @ [c]\<rparr>" log] show ?thesis
      by (simp add: runLimiter_def rateLimitAutoDNS_def)
  next
    case (Suc t)
    with Cons.IH[of "s\<lparr>tokens := t\<rparr>" "log @ [c]"] show ?thesis
      by (simp add: runLimiter_def rateLimitAutoDNS_def)
  qed
qed

lemma limStep_inv:
  "queue s \<noteq> [] \<longrightarrow> tokens s = 0 \<Longrightarrow> limStep (s, log) ev = (s', log') \<Longrightarrow> queue s' \<noteq> [] \<longrightarrow> tokens s' = 0"
  by (cases ev) (auto simp: rateLimitAutoDNS_def refill_eq split: if_splits)

lemma run_inv:
  "queue s \<noteq> [] \<longrightarrow> tokens s = 0 \<Longrightarrow> runLimiter evs (s, log) = (s', log') \<Longrightarrow> queue s' \<noteq> [] \<longrightarrow> tokens s' = 0"
proof (induction evs arbitrary: s log)
  case Nil then show ?case by (simp add: runLimiter_def)
next
  case (Cons ev evs)
  obtain s1 log1 where st: "limStep (s, log) ev = (s1, log1)" by force
  from limStep_inv[OF Cons.prems(1) st] have i1: "queue s1 \<noteq> [] \<longrightarrow> tokens s1 = 0" .
  from Cons.prems(2) st have "runLimiter evs (s1, log1) = (s', log')" by (simp add: runLimiter_def)
  from Cons.IH[OF i1 this] show ?case .
qed

lemma runLimiter_append: "runLimiter (evs @ evs') st = runLimiter evs' (runLimiter evs st)"
  by (simp add: runLimiter_def)

text \<open>
  C3. The limiter as a machine driven by arrivals and timer ticks (the length of the
  interval and the scheduling of promise callbacks are outside the model). An arrival
  that finds a token is resolved at once and takes one token. From the initial state,
  capacity + 2 arrivals before a tick leave the last two callers queued and resolve the
  first three. In every reachable state with a caller queued, later arrivals are queued
  behind and resolve nobody; the next tick resolves the head of the queue in queue order,
  as many callers as the capacity allows, and leaves to later arrivals only the tokens
  the queue did not need.
\<close>

theorem rateLimiter_fifo:
  fixes s s1 :: "'c rateLimiter" and cs :: "'c list"
  shows
  "(0 < tokens s \<longrightarrow> rateLimitAutoDNS c s = (True, s\<lparr>tokens := tokens s - 1\<rparr>)) \<and>
   (length cs = capacity (autodnsRate :: 'c rateLimiter) + 2 \<longrightarrow>
      runLimiter (map Acquire cs) (autodnsRate, []) =
        (\<lparr>capacity = 3, tokens = 0, queue = drop 3 cs\<rparr>, take 3 cs) \<and>
      length (drop 3 cs) = 2) \<and>
   (runLimiter evs (autodnsRate, []) = (s1, log) \<and> queue s1 \<noteq> [] \<longrightarrow>
      runLimiter (map Acquire late) (s1, log) = (s1\<lparr>queue := queue s1 @ late\<rparr>, log) \<and>
      runLimiter (map Acquire late @ [Tick]) (s1, log) =
        (s1\<lparr>tokens := capacity s1 - length (queue s1 @ late),
            queue := drop (capacity s1) (queue s1 @ late)\<rparr>,
         log @ take (capacity s1) (queue s1 @ late)))"
proof (intro conjI impI)
  assume "0 < tokens s"
  then show "rateLimitAutoDNS c s = (True, s\<lparr>tokens := tokens s - 1\<rparr>)"
    by (simp add: rateLimitAutoDNS_def)
next
  assume "length cs = capacity (autodnsRate :: 'c rateLimiter) + 2"
  then have l: "length cs = 5" by (simp add: autodnsRate_def)
  then show "runLimiter (map Acquire cs) (autodnsRate, []) =
        (\<lparr>capacity = 3, tokens = 0, queue = drop 3 cs\<rparr>, take 3 cs)"
    by (simp add: run_acquires autodnsRate_def)
  from l show "length (drop 3 cs) = 2" by simp
next
  assume a: "runLimiter evs (autodnsRate, []) = (s1, log) \<and> queue s1 \<noteq> []"
  have i0: "queue (autodnsRate :: 'c rateLimiter) \<noteq> [] \<longrightarrow> tokens (autodnsRate :: 'c rateLimiter) = 0"
    by (simp add: autodnsRate_def)
  from a have r: "runLimiter evs (autodnsRate, []) = (s1, log)" and ne: "queue s1 \<noteq> []"
    by simp_all
  from run_inv[OF i0 r] ne have t0: "tokens s1 = 0" by simp
  then show q: "runLimiter (map Acquire late) (s1, log) = (s1\<lparr>queue := queue s1 @ late\<rparr>, log)"
    by (simp add: run_acquires)
  show "runLimiter (map Acquire late @ [Tick]) (s1, log) =
        (s1\<lparr>tokens := capacity s1 - length (queue s1 @ late),
            queue := drop (capacity s1) (queue s1 @ late)\<rparr>,
         log @ take (capacity s1) (queue s1 @ late))"
    by (simp add: runLimiter_append q) (simp add: runLimiter_def refill_eq)
qed

theorem rateLimiter_fifo_witness:
  "0 < tokens (autodnsRate :: nat rateLimiter) \<and>
   rateLimitAutoDNS (1::nat) autodnsRate = (True, \<lparr>capacity = 3, tokens = 2, queue = []\<rparr>) \<and>
   length [1, 2, 3, 4, 5 :: nat] = capacity (autodnsRate :: nat rateLimiter) + 2 \<and>
   runLimiter (map Acquire [1, 2, 3, 4, 5 :: nat]) (autodnsRate, []) =
     (\<lparr>capacity = 3, tokens = 0, queue = [4, 5]\<rparr>, [1, 2, 3]) \<and>
   runLimiter (map Acquire [6 :: nat]) (\<lparr>capacity = 3, tokens = 0, queue = [4, 5]\<rparr>, [1, 2, 3]) =
     (\<lparr>capacity = 3, tokens = 0, queue = [4, 5, 6]\<rparr>, [1, 2, 3]) \<and>
   runLimiter (map Acquire [6 :: nat] @ [Tick])
       (\<lparr>capacity = 3, tokens = 0, queue = [4, 5]\<rparr>, [1, 2, 3]) =
     (\<lparr>capacity = 3, tokens = 0, queue = []\<rparr>, [1, 2, 3, 4, 5, 6])"
  using rateLimiter_fifo
          [where s = "autodnsRate :: nat rateLimiter" and c = 1 and cs = "[1, 2, 3, 4, 5]"
             and evs = "map Acquire [1, 2, 3, 4, 5]"
             and ?s1.0 = "\<lparr>capacity = 3, tokens = 0, queue = [4, 5]\<rparr>"
             and log = "[1, 2, 3]" and late = "[6]"]
  by (simp add: autodnsRate_def)

section \<open>Properties of the retry policy\<close>

lemma isRetryableError_spec: "validStatus e \<Longrightarrow> isRetryableError e = retryableBySpec e"
  by (auto simp: isRetryableError_def retryableBySpec_def validStatus_def split: option.splits)

lemma pRetryFrom_failed_attempt:
  assumes "answer h = Inl e"
  shows "pRetryFrom opts sleep k n (apiAttempt answer request) h =
           (if isRetryableError e \<and> 0 < n
            then pRetryFrom opts sleep (Suc k) (n - 1) (apiAttempt answer request)
                   (h @ [request, Sleep (backoff opts k)])
            else (Inl e, h @ [request]))"
  using assms by (cases n) (simp_all add: apiAttempt_def sleep_def)

lemma apiAttempt_history: "apiAttempt answer request h = (r, h1) \<Longrightarrow> h1 = h @ [request]"
  by (auto simp: apiAttempt_def split: sum.splits if_splits)

lemma pRetryFrom_bound:
  "length (filter isApiRequest (snd (pRetryFrom opts sleep k n (apiAttempt answer request) h)))
     \<le> length (filter isApiRequest h) + n + 1"
proof (induction n arbitrary: k h)
  case 0
  obtain r h1 where a: "apiAttempt answer request h = (r, h1)" by force
  from apiAttempt_history[OF a] a show ?case by (cases r) auto
next
  case (Suc n)
  obtain r h1 where a: "apiAttempt answer request h = (r, h1)" by force
  from apiAttempt_history[OF a] have h1: "h1 = h @ [request]" .
  show ?case
  proof (cases r)
    case (Throw e)
    have "length (filter isApiRequest (sleep (backoff opts k) h1)) \<le> length (filter isApiRequest h) + 1"
      using h1 by (simp add: isApiRequest_def sleep_def)
    with Suc.IH[of "Suc k" "sleep (backoff opts k) h1"] a Throw show ?thesis by simp
  qed (use a h1 in auto)
qed

lemma sanitize_lowercase: "sanitizeDomainName ''example.com'' = Inr ''example.com''"
  by (simp add: sanitizeDomainName_def toLowerCase_def upperCase_def lowerCase_def trim_def
      isSpace_def isValidDomainName_def patternLabel_def isAlnum_def)

lemma sanitize_example: "sanitizeDomainName ''Example.COM'' = Inr ''example.com''"
  by (simp add: sanitizeDomainName_def toLowerCase_def upperCase_def lowerCase_def trim_def isSpace_def
      isValidDomainName_def patternLabel_def isAlnum_def)

text \<open>
  C4. The three API calls hand \<^verbatim>\<open>pRetry\<close> the same attempt with the configured three
  retries. When an attempt fails with an error whose response status, if it has one, is
  a valid HTTP status, the next attempt follows (after the pause of the exponential
  backoff) exactly when the error is retryable by the specification and a retry is
  left; otherwise the call ends with this error and sends nothing more. A call sends at
  most one request more than the retries it was given, and the pauses before the three
  retries are 1000, 2000 and 4000 milliseconds.
\<close>

theorem api_retry_classification:
  "(validStatus e \<and> answer h = Inl e \<longrightarrow>
      pRetryFrom opts sleep k n (apiAttempt answer request) h =
        (if retryableBySpec e \<and> 0 < n
         then pRetryFrom opts sleep (Suc k) (n - 1) (apiAttempt answer request)
                (h @ [request, Sleep (backoff opts k)])
         else (Inl e, h @ [request]))) \<and>
   length (filter isApiRequest (snd (pRetryFrom opts sleep k n (apiAttempt answer request) h)))
     \<le> length (filter isApiRequest h) + n + 1 \<and>
   map (backoff RETRY_CONFIG) [0, 1, 2] = [1000, 2000, 4000] \<and>
   queryDomains w h = pRetryFrom RETRY_CONFIG sleep 0 3 (apiAttempt (searchAnswer w) ApiSearch) h \<and>
   (sanitizeDomainName zoneName = Inr z \<longrightarrow>
      getZone w zoneName h =
        pRetryFrom RETRY_CONFIG sleep 0 3 (apiAttempt (\<lambda>h'. getAnswer w h' z) (ApiGet z)) h) \<and>
   (sanitizeDomainName zoneName = Inr z \<and> \<not> dryRun cfg \<longrightarrow>
      updateZone cfg w zoneName zoneData h =
        pRetryFrom RETRY_CONFIG sleep 0 3
          (apiAttempt (\<lambda>h'. putAnswer w h' z (payloadOf zoneData))
             (ApiPut z (payloadOf zoneData))) h)"
proof (intro conjI impI)
  assume "validStatus e \<and> answer h = Inl e"
  then show "pRetryFrom opts sleep k n (apiAttempt answer request) h =
        (if retryableBySpec e \<and> 0 < n
         then pRetryFrom opts sleep (Suc k) (n - 1) (apiAttempt answer request)
                (h @ [request, Sleep (backoff opts k)])
         else (Inl e, h @ [request]))"
    using pRetryFrom_failed_attempt[of answer h e opts k n request] isRetryableError_spec[of e]
    by simp
next
  show "map (backoff RETRY_CONFIG) [0, 1, 2] = [1000, 2000, 4000]"
    by (simp add: backoff_def RETRY_CONFIG_def)
next
  show "length (filter isApiRequest (snd (pRetryFrom opts sleep k n (apiAttempt answer request) h)))
     \<le> length (filter isApiRequest h) + n + 1"
    by (rule pRetryFrom_bound)
qed (simp_all add: queryDomains_def getZone_def updateZone_def pRetry_def RETRY_CONFIG_def)

theorem api_retry_classification_witness:
  "validStatus notFound404 \<and> searchAnswer denied [] = Inl notFound404 \<and>
   queryDomains denied [] = (Inl notFound404, [ApiSearch]) \<and>
   validStatus tooMany429 \<and> sanitizeDomainName ''Example.COM'' = Inr ''example.com'' \<and>
   getZone denied ''Example.COM'' [] =
     (Inl tooMany429,
      [ApiGet ''example.com'', Sleep 1000, ApiGet ''example.com'', Sleep 2000,
       ApiGet ''example.com'', Sleep 4000, ApiGet ''example.com'']) \<and>
   dryRun liveConfig = False \<and> validStatus badRequest400 \<and>
   updateZone liveConfig rejecting ''Example.COM'' \<lparr>resourceRecords = None, otherFields = []\<rparr> [] =
     (Inl badRequest400,
      [ApiPut ''example.com'' \<lparr>resourceRecords = None, otherFields = []\<rparr>])"
proof -
  have v: "validStatus notFound404" "validStatus tooMany429" "validStatus badRequest400"
    by (simp_all add: validStatus_def notFound404_def tooMany429_def badRequest400_def)
  have a: "searchAnswer denied [] = Inl notFound404" by (simp add: denied_def noRecords_def)
  have n: "\<not> retryableBySpec notFound404" "\<not> retryableBySpec badRequest400"
    by (simp_all add: retryableBySpec_def notFound404_def badRequest400_def)
  have q: "queryDomains denied [] = (Inl notFound404, [ApiSearch])"
    using api_retry_classification[where e = notFound404 and answer = "searchAnswer denied"
        and h = "[]" and opts = RETRY_CONFIG and k = 0 and n = 3 and request = ApiSearch
        and w = denied]
      v a n by simp
  have g: "getZone denied ''Example.COM'' [] =
     (Inl tooMany429,
      [ApiGet ''example.com'', Sleep 1000, ApiGet ''example.com'', Sleep 2000,
       ApiGet ''example.com'', Sleep 4000, ApiGet ''example.com''])"
    by (simp add: getZone_def sanitize_example pRetry_def RETRY_CONFIG_def apiAttempt_def
        denied_def noRecords_def isRetryableError_def tooMany429_def backoff_def
        numeral_3_eq_3 sleep_def)
  have d: "dryRun liveConfig = False" by (simp add: liveConfig_def)
  let ?z = "\<lparr>resourceRecords = None, otherFields = []\<rparr>"
  have p: "payloadOf ?z = ?z" by (simp add: payloadOf_def readOnlyFields_def deleteField_def)
  have pa: "putAnswer rejecting [] ''example.com'' ?z = Inl badRequest400"
    by (simp add: rejecting_def noRecords_def)
  have u: "updateZone liveConfig rejecting ''Example.COM'' ?z [] =
     (Inl badRequest400, [ApiPut ''example.com'' ?z])"
    using api_retry_classification[where e = badRequest400
        and answer = "\<lambda>h'. putAnswer rejecting h' ''example.com'' ?z"
        and h = "[]" and opts = RETRY_CONFIG and k = 0 and n = 3
        and request = "ApiPut ''example.com'' ?z" and w = rejecting and cfg = liveConfig
        and zoneName = "''Example.COM''" and z = "''example.com''" and zoneData = ?z]
      v n d p pa sanitize_example by simp
  from v a q g d u sanitize_example show ?thesis by simp
qed

section \<open>Properties of updateZone\<close>

lemma foldl_deleteField:
  "foldl deleteField obj fs = filter (\<lambda>(k, v). k \<notin> set fs) obj"
proof (induction fs arbitrary: obj)
  case Nil
  then show ?case by simp
next
  case (Cons f fs)
  have "foldl deleteField obj (f # fs) = foldl deleteField (deleteField obj f) fs"
    by simp
  also have "\<dots> = filter (\<lambda>(k, v). k \<notin> set fs) (deleteField obj f)"
    by (rule Cons.IH)
  also have "\<dots> = filter (\<lambda>(k, v). k \<notin> set (f # fs)) obj"
    unfolding deleteField_def by (induction obj) auto
  finally show ?case .
qed

text \<open>The payload of the value-level \<^verbatim>\<open>updateZone\<close> is stripped in the same way.\<close>

lemma payloadOf_fields:
  "otherFields (payloadOf zoneData) =
     filter (\<lambda>(k, v). k \<notin> set readOnlyFields) (otherFields zoneData)"
  by (simp add: payloadOf_def foldl_deleteField)

lemma foldl_deleteProp_last:
  "foldl (\<lambda>s field. deleteProp s (length st) field) (st @ [obj]) fs =
     st @ [foldl deleteField obj fs]"
  by (induction fs arbitrary: obj) (simp_all add: deleteProp_def)

lemma putAttemptStore_effect:
  "\<exists>outcome. putAttemptStore answer z a (st, out) =
     (outcome, (st @ [strippedCopy (st ! a)], out @ [(z, strippedCopy (st ! a))]))"
  by (auto simp: putAttemptStore_def spreadCopy_def foldl_deleteProp_last foldl_deleteField
      strippedCopy_def Let_def split: sum.splits)

lemma pRetryFrom_storeFrame:
  assumes a: "a < length st"
  shows "pRetryFrom opts (\<lambda>ms s. s) k n (putAttemptStore answer z a) (st, out) = (r, s')
           \<Longrightarrow> storeFrame a (st, out) s'"
  using a
proof (induction n arbitrary: k st out)
  case 0
  from putAttemptStore_effect[of answer z a st out] obtain outcome where
    e: "putAttemptStore answer z a (st, out) =
          (outcome, (st @ [strippedCopy (st ! a)], out @ [(z, strippedCopy (st ! a))]))" by blast
  with "0.prems" have "s' = (st @ [strippedCopy (st ! a)], out @ [(z, strippedCopy (st ! a))])"
    by (cases outcome) auto
  then show ?case by (simp add: storeFrame_def)
next
  case (Suc n)
  from putAttemptStore_effect[of answer z a st out] obtain outcome where
    e: "putAttemptStore answer z a (st, out) =
          (outcome, (st @ [strippedCopy (st ! a)], out @ [(z, strippedCopy (st ! a))]))" by blast
  let ?st1 = "st @ [strippedCopy (st ! a)]" and ?out1 = "out @ [(z, strippedCopy (st ! a))]"
  show ?case
  proof (cases outcome)
    case (Throw err)
    with Suc.prems e have run: "pRetryFrom opts (\<lambda>ms s. s) (Suc k) n (putAttemptStore answer z a) (?st1, ?out1) = (r, s')"
      by simp
    from Suc.prems have a1: "a < length ?st1" by simp
    from Suc.IH[OF run a1] obtain st' out' more new where
      s': "s' = (st', out')" "st' = ?st1 @ more" "out' = ?out1 @ new"
          "list_all (\<lambda>(z, body). body = strippedCopy (?st1 ! a)) new"
      by (auto simp: storeFrame_def)
    from Suc.prems have "?st1 ! a = st ! a" by (simp add: nth_append)
    with s' show ?thesis by (simp add: storeFrame_def)
  next
    case (Success v)
    with Suc.prems e have "s' = (?st1, ?out1)" by simp
    then show ?thesis by (simp add: storeFrame_def)
  next
    case (Abort err)
    with Suc.prems e have "s' = (?st1, ?out1)" by simp
    then show ?thesis by (simp add: storeFrame_def)
  qed
qed

lemma updateZoneStore_storeFrame:
  assumes "zoneData < length st"
      and "updateZoneStore cfg answer zoneName zoneData (st, out) = (r, s')"
  shows "storeFrame zoneData (st, out) s'"
proof (cases "sanitizeDomainName zoneName")
  case (Inl e)
  with assms(2) show ?thesis by (auto simp: updateZoneStore_def storeFrame_def)
next
  case (Inr z)
  show ?thesis
  proof (cases "dryRun cfg")
    case True
    with Inr assms(2) show ?thesis by (auto simp: updateZoneStore_def storeFrame_def)
  next
    case False
    with Inr assms(2) have "pRetryFrom RETRY_CONFIG (\<lambda>ms s. s) 0 (retries RETRY_CONFIG)
        (putAttemptStore answer z zoneData) (st, out) = (r, s')"
      by (simp add: updateZoneStore_def pRetry_def)
    from pRetryFrom_storeFrame[OF assms(1) this] show ?thesis .
  qed
qed

text \<open>
  C10. \<^verbatim>\<open>updateZone\<close> is given the address of the caller's zone object in a store of
  objects. Whatever the zone name, the settings and the answers of the API, each payload
  it sends has the properties of that object without \<^verbatim>\<open>created\<close>, \<^verbatim>\<open>updated\<close>,
  \<^verbatim>\<open>owner\<close>, \<^verbatim>\<open>updater\<close> and \<^verbatim>\<open>roid\<close>, their values as they are (a shallow copy). After
  the call every object that was in the store is as before, the caller's zone object
  with all its properties among them; the call only adds objects.
\<close>

theorem updateZone_keeps_zoneData:
  assumes "zoneData < length st"
      and "updateZoneStore cfg answer zoneName zoneData (st, out) = (r, (st', out'))"
  shows "take (length st) st' = st \<and> st' ! zoneData = st ! zoneData \<and>
         (\<exists>new. out' = out @ new \<and>
            (\<forall>(z, body) \<in> set new.
               body = filter (\<lambda>(k, v). k \<notin> set [''created'', ''updated'', ''owner'', ''updater'', ''roid''])
                        (st ! zoneData)))"
proof -
  from updateZoneStore_storeFrame[OF assms] obtain more new where
    f: "st' = st @ more" "out' = out @ new"
       "list_all (\<lambda>(z, body). body = strippedCopy (st ! zoneData)) new"
    by (auto simp: storeFrame_def)
  from f(1) assms(1) have "take (length st) st' = st" "st' ! zoneData = st ! zoneData"
    by (simp_all add: nth_append)
  moreover from f(3) have "\<forall>(z, body) \<in> set new.
       body = filter (\<lambda>(k, v). k \<notin> set [''created'', ''updated'', ''owner'', ''updater'', ''roid''])
                (st ! zoneData)"
    by (auto simp: list_all_iff strippedCopy_def readOnlyFields_def)
  ultimately show ?thesis using f(2) by blast
qed

theorem updateZone_keeps_zoneData_witness:
  "(0::nat) < length sampleStore \<and>
   updateZoneStore liveConfig accepts ''example.com'' 0 (sampleStore, []) =
     (Inr \<lparr>rstatus = Some \<lparr>stype = ''SUCCESS'', stext = []\<rparr>, rdata = None\<rparr>,
      (sampleStore @ [[(''origin'', Prim ''example.com''), (''resourceRecords'', Ref 1)]],
       [(''example.com'', [(''origin'', Prim ''example.com''), (''resourceRecords'', Ref 1)])])) \<and>
   (sampleStore @ [[(''origin'', Prim ''example.com''), (''resourceRecords'', Ref 1)]]) ! 0 = zoneObject"
proof -
  have l: "(0::nat) < length sampleStore" by (simp add: sampleStore_def)
  have run: "updateZoneStore liveConfig accepts ''example.com'' 0 (sampleStore, []) =
     (Inr \<lparr>rstatus = Some \<lparr>stype = ''SUCCESS'', stext = []\<rparr>, rdata = None\<rparr>,
      (sampleStore @ [[(''origin'', Prim ''example.com''), (''resourceRecords'', Ref 1)]],
       [(''example.com'', [(''origin'', Prim ''example.com''), (''resourceRecords'', Ref 1)])]))"
    by (simp add: updateZoneStore_def sanitize_lowercase liveConfig_def pRetry_def RETRY_CONFIG_def
        putAttemptStore_def spreadCopy_def deleteProp_def deleteField_def readOnlyFields_def
        accepts_def sampleStore_def zoneObject_def numeral_3_eq_3)
  from updateZone_keeps_zoneData[OF l run] have
    "(sampleStore @ [[(''origin'', Prim ''example.com''), (''resourceRecords'', Ref 1)]]) ! 0 = sampleStore ! 0"
    by blast
  with l run show ?thesis by (simp add: sampleStore_def)
qed

section \<open>Properties of the reconcilers and of the per-domain check\<close>

lemma readOnly_refl: "readOnly h h"
  by (simp add: readOnly_def zoneWrites_def)

lemma readOnly_trans: "readOnly h h1 \<Longrightarrow> readOnly h1 h2 \<Longrightarrow> readOnly h h2"
  unfolding readOnly_def zoneWrites_def
  apply clarify
  subgoal for new1 new2
    by (rule exI[of _ "new1 @ new2"]) simp
  done

lemma readOnly_event: "\<not> isPut e \<Longrightarrow> readOnly h (h @ [e])"
  by (simp add: readOnly_def zoneWrites_def)

lemma readOnly_zoneWrites: "readOnly h h' \<Longrightarrow> zoneWrites h' = zoneWrites h"
  by (auto simp: readOnly_def zoneWrites_def)



lemma pRetryFrom_readOnly:
  assumes "\<not> isPut request"
  shows "readOnly h (snd (pRetryFrom opts sleep k n (apiAttempt answer request) h))"
proof (induction n arbitrary: k h)
  case 0
  have "snd (pRetryFrom opts sleep k 0 (apiAttempt answer request) h) = h @ [request]"
    by (auto simp: apiAttempt_def split: sum.splits)
  with assms show ?case by (simp add: readOnly_event)
next
  case (Suc n)
  have a: "readOnly h (h @ [request])" using assms by (rule readOnly_event)
  have b: "readOnly (h @ [request]) (sleep (backoff opts k) (h @ [request]))"
    unfolding sleep_def by (rule readOnly_event) (simp add: isPut_def)
  from a b have c: "readOnly h (sleep (backoff opts k) (h @ [request]))" by (rule readOnly_trans)
  show ?case
  proof (cases "answer h")
    case (Inr body)
    with a show ?thesis by (simp add: apiAttempt_def)
  next
    case (Inl e)
    show ?thesis
    proof (cases "isRetryableError e")
      case False
      with Inl a show ?thesis by (simp add: apiAttempt_def)
    next
      case True
      with Inl have "snd (pRetryFrom opts sleep k (Suc n) (apiAttempt answer request) h) =
           snd (pRetryFrom opts sleep (Suc k) n (apiAttempt answer request)
                  (sleep (backoff opts k) (h @ [request])))"
        by (simp add: apiAttempt_def)
      with readOnly_trans[OF c Suc.IH] show ?thesis by simp
    qed
  qed
qed

lemma getZone_readOnly: "readOnly h (snd (getZone w zoneName h))"
  by (auto simp: getZone_def pRetry_def readOnly_refl isPut_def
      intro!: pRetryFrom_readOnly split: sum.splits)

text \<open>
  C5. When the zone fetched for the domain has a CNAME record at the apex (name empty
  or \<^verbatim>\<open>@\<close>), the SPF reconciler ends with the conflict error and the history holds the
  zone writes it held before: no write is sent.
\<close>

theorem updateDomainSPFRecord_apex_cname:
  assumes "getZone w domainName h = (Inr zoneInfo, h1)"
      and "firstZone zoneInfo = Inr zone"
      and "\<exists>rr \<in> set (recordsOf zone). rtype rr = ''CNAME'' \<and> (name rr = [] \<or> name rr = ''@'')"
  shows "updateDomainSPFRecord cfg w domainName spfValue h = (Inl apexCnameError, h1) \<and>
         zoneWrites h1 = zoneWrites h"
proof -
  from assms(3) have "list_ex (\<lambda>rr. rtype rr = ''CNAME'' \<and> isApex rr) (recordsOf zone)"
    by (auto simp: list_ex_iff isApex_def)
  with assms(1,2) have "updateDomainSPFRecord cfg w domainName spfValue h = (Inl apexCnameError, h1)"
    by (simp add: updateDomainSPFRecord_def)
  moreover from getZone_readOnly[of h w domainName] assms(1) have "zoneWrites h1 = zoneWrites h"
    by (simp add: readOnly_zoneWrites)
  ultimately show ?thesis by simp
qed

theorem updateDomainSPFRecord_apex_cname_witness:
  "getZone aliased ''example.com'' [] = (Inr aliasedZone, [ApiGet ''example.com'']) \<and>
   firstZone aliasedZone = Inr \<lparr>resourceRecords = Some [apexCname], otherFields = []\<rparr> \<and>
   rtype apexCname = ''CNAME'' \<and> name apexCname = ''@'' \<and>
   updateDomainSPFRecord liveConfig aliased ''example.com'' ''v=spf1 -all'' [] =
     (Inl apexCnameError, [ApiGet ''example.com'']) \<and>
   zoneWrites [ApiGet ''example.com''] = zoneWrites []"
proof -
  have g: "getZone aliased ''example.com'' [] = (Inr aliasedZone, [ApiGet ''example.com''])"
    by (simp add: getZone_def sanitize_lowercase pRetry_def RETRY_CONFIG_def apiAttempt_def
        aliased_def noRecords_def numeral_3_eq_3)
  have f: "firstZone aliasedZone = Inr \<lparr>resourceRecords = Some [apexCname], otherFields = []\<rparr>"
    by (simp add: firstZone_def aliasedZone_def)
  have c: "\<exists>rr \<in> set (recordsOf \<lparr>resourceRecords = Some [apexCname], otherFields = []\<rparr>).
             rtype rr = ''CNAME'' \<and> (name rr = [] \<or> name rr = ''@'')"
    by (simp add: recordsOf_def apexCname_def)
  from updateDomainSPFRecord_apex_cname[OF g f c, of liveConfig "''v=spf1 -all''"] g f
  show ?thesis by (simp add: apexCname_def)
qed

text \<open>
  C9, as the code has it. When every selector of the domain's desired DKIM configuration
  has an empty value (or one of white space only), the DKIM check reports \<^verbatim>\<open>skipped\<close>
  and the history is unchanged: no DNS query and no API request. The result is the
  same as for a domain without an entry in the configuration.
\<close>

theorem checkDKIMForDomain_skipped:
  assumes "dkimConfig domainName = Some desired"
      and "\<forall>(sel, v) \<in> set desired. trim v = []"
  shows "checkDKIMForDomain cfg w domainName dkimConfig result h =
           (result\<lparr>dkimCheckConsole := GrayDash, dkimInfo := ''DKIM: Skipped'',
                   dkimStatus := ''skipped''\<rparr>, h) \<and>
         checkDKIMForDomain cfg w domainName dkimConfig result h =
           checkDKIMForDomain cfg w domainName (dkimConfig(domainName := None)) result h"
proof -
  from assms(2) have "\<not> list_ex (\<lambda>v. v \<noteq> [] \<and> trim v \<noteq> []) (map snd desired)"
    by (auto simp: list_ex_iff)
  with assms(1) show ?thesis
    by (simp add: checkDKIMForDomain_def Let_def)
qed

theorem checkDKIMForDomain_skipped_witness:
  "emptySelector ''example.com'' = Some [(''default'', [])] \<and> trim [] = [] \<and>
   checkDKIMForDomain liveConfig noRecords ''example.com'' emptySelector initialResult [] =
     (initialResult\<lparr>dkimCheckConsole := GrayDash, dkimInfo := ''DKIM: Skipped'',
                    dkimStatus := ''skipped''\<rparr>, [])"
proof -
  have a: "emptySelector ''example.com'' = Some [(''default'', [])]"
    by (simp add: emptySelector_def)
  have b: "\<forall>(sel, v) \<in> set [(''default'', [])]. trim v = []"
    by (simp add: trim_def)
  from checkDKIMForDomain_skipped
         [where dkimConfig = emptySelector and domainName = "''example.com''"
            and desired = "[(''default'', [])]" and cfg = liveConfig and w = noRecords
            and result = initialResult and h = "[]", OF a b] a
  show ?thesis by (simp add: trim_def)
qed

text \<open>
  C9, as the claim has it, fails: a configuration whose only selector has the empty
  value and a configuration without an entry for the domain give the same result.
\<close>

theorem checkDKIMForDomain_not_distinguished:
  "checkDKIMForDomain liveConfig noRecords ''example.com'' emptySelector initialResult [] =
   checkDKIMForDomain liveConfig noRecords ''example.com'' noDkim initialResult []"
  by (simp add: checkDKIMForDomain_def emptySelector_def noDkim_def Let_def)



















lemma usesAutoDNSNameservers_history:
  "snd (usesAutoDNSNameservers w d h) = h @ [DnsQuery NS d]"
  by (simp add: usesAutoDNSNameservers_def resolveNs_def split: sum.splits)

text \<open>The record getters and the health checks leave the three statuses alone.\<close>

lemma getRecordsForDomain_statuses:
  "spfStatus (fst (getRecordsForDomain w d r h)) = spfStatus r"
  "dmarcStatus (fst (getRecordsForDomain w d r h)) = dmarcStatus r"
  "dkimStatus (fst (getRecordsForDomain w d r h)) = dkimStatus r"
  by (simp_all add: getRecordsForDomain_def split: prod.splits sum.splits)

lemma addHealthChecks_statuses:
  "spfStatus (fst (addHealthChecks w d r h)) = spfStatus r"
  "dmarcStatus (fst (addHealthChecks w d r h)) = dmarcStatus r"
  "dkimStatus (fst (addHealthChecks w d r h)) = dkimStatus r"
  "aDisplay (fst (addHealthChecks w d r h)) = aDisplay r"
  "aaaaDisplay (fst (addHealthChecks w d r h)) = aaaaDisplay r"
  "mxDisplay (fst (addHealthChecks w d r h)) = mxDisplay r"
  by (simp_all add: addHealthChecks_def Let_def split: prod.splits)

























text \<open>
  The host names read back from a shown list are the names shown, unless a name holds a
  comma or the only name is a dash.
\<close>

lemma splitOn_not_Nil: "splitOn sep s \<noteq> []"
  by (induction s) (auto split: list.splits)

lemma splitOn_free: "sep \<notin> set x \<Longrightarrow> splitOn sep x = [x]"
  by (induction x) (auto split: list.splits)

lemma splitOn_append:
  "sep \<notin> set x \<Longrightarrow> splitOn sep (x @ sep # rest) = x # splitOn sep rest"
  by (induction x) (auto split: list.splits)

lemma splitOn_joinWith:
  "xs \<noteq> [] \<Longrightarrow> \<forall>x \<in> set xs. sep \<notin> set x \<Longrightarrow> splitOn sep (joinWith [sep] xs) = xs"
  by (induction "[sep]" xs rule: joinWith.induct) (auto simp: splitOn_free splitOn_append)

lemma shownHosts_shown:
  assumes "\<forall>x \<in> set mxs. CHR '','' \<notin> set x" and "mxs \<noteq> [''-'']"
  shows "shownHosts (shown mxs) = mxs"
proof (cases "mxs = []")
  case True
  then show ?thesis by (simp add: shownHosts_def shown_def)
next
  case False
  have s: "splitOn CHR '','' (joinWith '','' mxs) = mxs"
    using splitOn_joinWith[OF False assms(1)] by simp
  have "joinWith '','' mxs \<noteq> ''-''"
  proof
    assume "joinWith '','' mxs = ''-''"
    with s have "mxs = splitOn CHR '','' ''-''" by simp
    with assms(2) show False by simp
  qed
  with False s show ?thesis by (simp add: shownHosts_def shown_def)
qed




text \<open>
  The block that updates DMARC sets the status to updated whatever the two calls
  return.
\<close>

lemma updateDmarcIfNeeded_ignores_outcome:
  "dmarcStatus (fst (updateDmarcIfNeeded cfg w d True cur r h)) =
     ''ok - updated from '' @ quoted cur"
  by (simp add: updateDmarcIfNeeded_def split: prod.splits)

text \<open>
  C8. The DMARC record of \<^verbatim>\<open>example.com\<close> differs from the expected one and the API
  rejects every zone write. \<^verbatim>\<open>updateDomainDMARCRecord\<close> catches the failure and returns
  \<^verbatim>\<open>false\<close>; \<^verbatim>\<open>checkDomain\<close> does not read what it returns and reports the DMARC
  status as updated, where an error status was due. The other checks do complete: the
  health summary is there.
\<close>

theorem checkDomain_reports_failed_dmarc_write_as_updated:
  "(\<forall>h. fst (updateDomainDMARCRecord liveConfig rejecting ''example.com''
              (expectedDmarc liveConfig) h) = False) \<and>
   dmarcStatus (fst (checkDomain liveConfig rejecting ''example.com'' noDkim [])) =
     ''ok - updated from '' @ quoted ''v=DMARC1; p=none'' \<and>
   healthSummary (fst (checkDomain liveConfig rejecting ''example.com'' noDkim [])) =
     ''NS:fail; SOA:fail; CAA:ok; MTA:fail; TLS:fail; PTR:fail''"
proof (intro conjI allI)
  fix h
  show "fst (updateDomainDMARCRecord liveConfig rejecting ''example.com''
              (expectedDmarc liveConfig) h) = False"
    by (simp add: updateDomainDMARCRecord_def getZone_def updateZone_def pRetry_def RETRY_CONFIG_def
      apiAttempt_def rejecting_def noRecords_def emptyZone_def firstZone_def recordsOf_def
      liveConfig_def badRequest400_def isRetryableError_def
      sanitizeDomainName_def toLowerCase_def upperCase_def lowerCase_def trim_def isSpace_def
      isValidDomainName_def patternLabel_def isAlnum_def numeral_3_eq_3)
next
  show "dmarcStatus (fst (checkDomain liveConfig rejecting ''example.com'' noDkim [])) =
     ''ok - updated from '' @ quoted ''v=DMARC1; p=none''"
    by code_simp
next
  show "healthSummary (fst (checkDomain liveConfig rejecting ''example.com'' noDkim [])) =
     ''NS:fail; SOA:fail; CAA:ok; MTA:fail; TLS:fail; PTR:fail''"
    by code_simp
qed

end
